theory Spec2Isabelle
  imports Complex_Main "HOL-Library.Word"
begin

section \<open>Numbers, vectors and matrices\<close>

text \<open>
  The filter of \<^verbatim>\<open>src/ukf.cpp\<close> computes with C++ \<^verbatim>\<open>double\<close> and with Eigen's
  dynamically sized \<^verbatim>\<open>VectorXd\<close> and \<^verbatim>\<open>MatrixXd\<close>. The embedding idealises a
  \<^verbatim>\<open>double\<close> as a real number: the rounding of the arithmetic, NaN and the infinities
  are outside the model. The \<^verbatim>\<open>float\<close> variables of the bootstrap hold single-precision
  values (\<open>to_float\<close> below). A vector is the list of its coefficients, a matrix the list
  of its rows, so \<open>M ! r ! c\<close> is \<^verbatim>\<open>M(r,c)\<close>. Timestamps (\<^verbatim>\<open>long long\<close>) are 64-bit
  words read as signed integers; the dimensions \<^verbatim>\<open>n_x_\<close>, \<^verbatim>\<open>n_aug_\<close> (\<^verbatim>\<open>int\<close>, never
  changed after the constructor) are integers.

  The operations below are total functions on lists. Eigen's preconditions on sizes and
  indices are written out where a vector comes from outside, that is for the measurement
  vector (see \<open>error\<close> below). The filter's own vectors and matrices keep the sizes the
  constructor allocates (\<open>allocated\<close>, \<open>reachable_allocated\<close>), and the theorems that
  depend on a size assume it.
\<close>

type_synonym vec = "real list"
type_synonym mat = "real list list"

definition coeff :: "mat \<Rightarrow> nat \<Rightarrow> nat \<Rightarrow> real" where
  "coeff M r c = M ! r ! c"

definition set_coeff :: "mat \<Rightarrow> nat \<Rightarrow> nat \<Rightarrow> real \<Rightarrow> mat" where
  "set_coeff M r c v = M[r := (M ! r)[c := v]]"

definition col :: "mat \<Rightarrow> nat \<Rightarrow> vec" where
  "col M c = map (\<lambda>row. row ! c) M"

definition set_col :: "mat \<Rightarrow> nat \<Rightarrow> vec \<Rightarrow> mat" where
  "set_col M c v = map (\<lambda>r. (M ! r)[c := v ! r]) [0..<length M]"

definition zero_vec :: "nat \<Rightarrow> vec" where
  "zero_vec n = replicate n 0"

definition zero_mat :: "nat \<Rightarrow> nat \<Rightarrow> mat" where
  "zero_mat r c = replicate r (replicate c 0)"

definition fill_vec :: "vec \<Rightarrow> real \<Rightarrow> vec" where
  "fill_vec v a = map (\<lambda>_. a) v"

definition fill_mat :: "mat \<Rightarrow> real \<Rightarrow> mat" where
  "fill_mat M a = map (\<lambda>row. map (\<lambda>_. a) row) M"

definition vadd :: "vec \<Rightarrow> vec \<Rightarrow> vec" where
  "vadd u v = map2 (+) u v"

definition vsub :: "vec \<Rightarrow> vec \<Rightarrow> vec" where
  "vsub u v = map2 (-) u v"

definition smul_vec :: "real \<Rightarrow> vec \<Rightarrow> vec" where
  "smul_vec a v = map (\<lambda>b. a * b) v"

definition dot :: "vec \<Rightarrow> vec \<Rightarrow> real" where
  "dot u v = sum_list (map2 (*) u v)"

definition madd :: "mat \<Rightarrow> mat \<Rightarrow> mat" where
  "madd A B = map2 vadd A B"

definition msub :: "mat \<Rightarrow> mat \<Rightarrow> mat" where
  "msub A B = map2 vsub A B"

definition mat_vec :: "mat \<Rightarrow> vec \<Rightarrow> vec" where
  "mat_vec A v = map (\<lambda>row. dot row v) A"

definition vec_mat :: "vec \<Rightarrow> mat \<Rightarrow> vec" where
  "vec_mat v A = map (\<lambda>c. dot v c) (transpose A)"

definition mmul :: "mat \<Rightarrow> mat \<Rightarrow> mat" where
  "mmul A B = map (\<lambda>row. vec_mat row B) A"

definition outer :: "vec \<Rightarrow> vec \<Rightarrow> mat" where
  "outer u v = map (\<lambda>a. map (\<lambda>b. a * b) v) u"

definition identity :: "nat \<Rightarrow> mat" where
  "identity n = map (\<lambda>i. map (\<lambda>j. if i = j then 1 else 0) [0..<n]) [0..<n]"

definition set_head :: "vec \<Rightarrow> nat \<Rightarrow> vec \<Rightarrow> vec" where
  \<comment> \<open>\<^verbatim>\<open>v.head(n) = u\<close>\<close>
  "set_head v n u = take n u @ drop n v"

definition set_topLeftCorner :: "mat \<Rightarrow> nat \<Rightarrow> nat \<Rightarrow> mat \<Rightarrow> mat" where
  \<comment> \<open>\<^verbatim>\<open>M.topLeftCorner(r,c) = B\<close>\<close>
  "set_topLeftCorner M r c B =
     map (\<lambda>i. if i < r then take c (B ! i) @ drop c (M ! i) else M ! i) [0..<length M]"

text \<open>
  Eigen's Cholesky factorisation \<^verbatim>\<open>llt().matrixL()\<close> and its \<^verbatim>\<open>inverse()\<close> belong to
  the external dense linear algebra library, not to this repository. They are parameters
  of the model: every theorem holds for whatever matrices the library returns.
\<close>

record eigen =
  llt_matrixL :: "mat \<Rightarrow> mat"
  inverse_mat :: "mat \<Rightarrow> mat"

subsection \<open>The two-argument arctangent and the angle reduction\<close>

text \<open>
  \<^verbatim>\<open>atan2(y, x)\<close> of the C library on real arguments: the angle in \<open>(-\<pi>, \<pi>]\<close> of the
  point \<open>(x, y)\<close>, and \<open>0\<close> at the origin.
\<close>

definition atan2 :: "real \<Rightarrow> real \<Rightarrow> real" where
  "atan2 y x =
     (if 0 < x then arctan (y / x)
      else if x < 0 then (if 0 \<le> y then arctan (y / x) + pi else arctan (y / x) - pi)
      else if 0 < y then pi / 2
      else if y < 0 then - (pi / 2)
      else 0)"

text \<open>
  The source reduces an angle with \<^verbatim>\<open>atan2(sin(a), cos(a))\<close> in three places: the yaw
  deviation in \<^verbatim>\<open>Prediction\<close> and \<^verbatim>\<open>UpdateRadar\<close>, and the bearing deviation and
  innovation in \<^verbatim>\<open>UpdateRadar\<close>.
\<close>

definition normalize_angle :: "real \<Rightarrow> real" where
  "normalize_angle a = atan2 (sin a) (cos a)"

subsection \<open>Single precision\<close>

text \<open>
  The conversion of a real value to \<^verbatim>\<open>float\<close> (IEEE binary32): rounding to the nearest
  number with 24 significant bits and an exponent of the last bit not below \<open>-149\<close>, a
  tie going to the even significand. Beyond the largest \<^verbatim>\<open>float\<close> the conversion
  gives an infinity, which the model does not have; the theorems on the conversion keep
  to values up to \<open>FLT_MAX\<close>.
\<close>

definition round_half_even :: "real \<Rightarrow> int" where
  "round_half_even q =
     (let f = \<lfloor>q\<rfloor>
      in if q - real_of_int f < 1 / 2 then f
         else if 1 / 2 < q - real_of_int f then f + 1
         else if even f then f else f + 1)"

definition to_float :: "real \<Rightarrow> real" where
  "to_float x =
     (if x = 0 then 0
      else let e = max (\<lfloor>log 2 \<bar>x\<bar>\<rfloor> - 23) (- 149)
           in real_of_int (round_half_even (x / 2 powr real_of_int e)) * 2 powr real_of_int e)"


section \<open>The data model\<close>

text \<open>
  Modelled from the spec: \<^verbatim>\<open>measurement_package.h\<close> is not among the sources. The
  spec's measurement record carries a sensor tag (RADAR or LASER), the raw measurement
  vector and a timestamp in microseconds; the field names are those \<^verbatim>\<open>ukf.cpp\<close> uses.
\<close>

datatype SensorType = LASER | RADAR

record MeasurementPackage =
  timestamp :: "64 word"
  sensor_type :: SensorType
  raw_measurements :: vec

text \<open>
  Modelled from the spec: \<^verbatim>\<open>ukf.h\<close> is not among the sources. The fields are the
  members \<^verbatim>\<open>ukf.cpp\<close> reads and writes, without the trailing underscore of the C++
  names (\<^verbatim>\<open>x_\<close> is \<open>x_state\<close> and \<^verbatim>\<open>P_\<close> is \<open>P_cov\<close>); \<^verbatim>\<open>lambda_\<close> and the noise
  parameters are \<^verbatim>\<open>double\<close>, as the formulas of the spec require.
\<close>

record UKF =
  is_initialized :: bool
  use_laser :: bool
  use_radar :: bool
  x_state :: vec
  P_cov :: mat
  Xsig_pred :: mat
  time_us :: "64 word"
  std_a :: real
  std_yawdd :: real
  std_laspx :: real
  std_laspy :: real
  std_radr :: real
  std_radphi :: real
  std_radrd :: real
  weights :: vec
  n_x :: int
  n_aug :: int
  lambda :: real
  NIS_laser :: real
  NIS_radar :: real

text \<open>
  A failed precondition of an Eigen operation on the measurement vector (Eigen checks
  them with \<^verbatim>\<open>eigen_assert\<close>): reading a coefficient beyond the vector's size, or
  subtracting vectors of different sizes.
\<close>

datatype error = IndexOutOfRange | SizeMismatch

text \<open>The member functions that \<^verbatim>\<open>ProcessMeasurement\<close> calls, in the order of the calls.\<close>

datatype call = Prediction_call real | UpdateLidar_call | UpdateRadar_call

section \<open>The constructor\<close>

text \<open>
  \<^verbatim>\<open>UKF::UKF()\<close>. The constructor allocates \<^verbatim>\<open>x_\<close>, \<^verbatim>\<open>weights_\<close> and
  \<^verbatim>\<open>Xsig_pred_\<close> without initialising them and does not set \<^verbatim>\<open>lambda_\<close>; their
  contents are written before they are first read, and are zero here.
\<close>

definition UKF_ctor :: UKF where
  "UKF_ctor =
     \<lparr> is_initialized = False,
       use_laser = True,
       use_radar = True,
       x_state = zero_vec 5,
       P_cov = [[1, 0, 0, 0, 0],
                [0, 1, 0, 0, 0],
                [0, 0, 1, 0, 0],
                [0, 0, 0, 100, 0],
                [0, 0, 0, 0, 100]],
       Xsig_pred = zero_mat 5 (nat (2 * 7 + 1)),
       time_us = 0,
       std_a = 0.4,
       std_yawdd = 0.65,
       std_laspx = 0.15,
       std_laspy = 0.15,
       std_radr = 0.3,
       std_radphi = 0.03,
       std_radrd = 0.3,
       weights = zero_vec (nat (2 * 7 + 1)),
       n_x = 5,
       n_aug = 7,
       lambda = 0,
       NIS_laser = 0,
       NIS_radar = 0 \<rparr>"

section \<open>Prediction\<close>

text \<open>
  The body of the loop "Predict Sigma Points" for one column \<open>c\<close> of the augmented sigma
  point matrix: the five coefficients written into the same column of \<^verbatim>\<open>Xsig_pred_\<close>.
\<close>

definition px_step :: "real \<Rightarrow> vec \<Rightarrow> real" where
  "px_step delta_t c =
     (let v = c ! 2; yaw = c ! 3; yawdot = c ! 4
      in if \<bar>yawdot\<bar> > 0.001
         then v * (sin (yaw + yawdot * delta_t) - sin yaw) / yawdot
         else v * cos yaw * delta_t)"

definition py_step :: "real \<Rightarrow> vec \<Rightarrow> real" where
  "py_step delta_t c =
     (let v = c ! 2; yaw = c ! 3; yawdot = c ! 4
      in if \<bar>yawdot\<bar> > 0.001
         then v * (- cos (yaw + yawdot * delta_t) + cos yaw) / yawdot
         else v * sin yaw * delta_t)"

definition predict_sigma_point :: "real \<Rightarrow> vec \<Rightarrow> vec" where
  "predict_sigma_point delta_t c =
     (let px = c ! 0; py = c ! 1; v = c ! 2; yaw = c ! 3; yawdot = c ! 4;
          mu_a = c ! 5; mu_yaw = c ! 6
      in [px + px_step delta_t c + 0.5 * delta_t * delta_t * cos yaw * mu_a,
          py + py_step delta_t c + 0.5 * delta_t * delta_t * sin yaw * mu_a,
          v + delta_t * mu_a,
          yaw + yawdot * delta_t + 0.5 * delta_t * delta_t * mu_yaw,
          yawdot + delta_t * mu_yaw])"

definition write_sigma_point :: "mat \<Rightarrow> nat \<Rightarrow> vec \<Rightarrow> mat" where
  \<comment> \<open>the five assignments \<^verbatim>\<open>Xsig_pred_(0,i) = ...\<close> to \<^verbatim>\<open>Xsig_pred_(4,i) = ...\<close>\<close>
  "write_sigma_point X i p =
     set_coeff (set_coeff (set_coeff (set_coeff (set_coeff X 0 i (p ! 0)) 1 i (p ! 1))
       2 i (p ! 2)) 3 i (p ! 3)) 4 i (p ! 4)"

definition sigma_count :: "UKF \<Rightarrow> nat" where
  \<comment> \<open>\<^verbatim>\<open>2*n_aug_+1\<close>, the bound of the loops over the sigma points\<close>
  "sigma_count s = nat (2 * n_aug s + 1)"

definition Xsig_aug :: "eigen \<Rightarrow> UKF \<Rightarrow> mat" where
  "Xsig_aug E s =
     (let lambda' = real_of_int (3 - n_aug s);
          X_aug = set_head (zero_vec (nat (n_aug s))) (nat (n_x s)) (x_state s);
          X_aug = X_aug[nat (n_x s) := 0];
          X_aug = X_aug[nat (n_x s + 1) := 0];
          P_aug = fill_mat (zero_mat (nat (n_aug s)) (nat (n_aug s))) 0;
          P_aug = set_topLeftCorner P_aug (nat (n_x s)) (nat (n_x s)) (P_cov s);
          P_aug = set_coeff P_aug 5 5 (std_a s * std_a s);
          P_aug = set_coeff P_aug 6 6 (std_yawdd s * std_yawdd s);
          A_aug = llt_matrixL E P_aug;
          Xs = zero_mat (nat (n_aug s)) (sigma_count s);
          Xs = set_col Xs 0 X_aug
      in foldl (\<lambda>Xs i.
           set_col
             (set_col Xs (i + 1)
                (vadd X_aug (smul_vec (sqrt (lambda' + real_of_int (n_aug s))) (col A_aug i))))
             (i + 1 + nat (n_aug s))
             (vsub X_aug (smul_vec (sqrt (lambda' + real_of_int (n_aug s))) (col A_aug i))))
         Xs [0..<nat (n_aug s)])"

definition predicted_weights :: "UKF \<Rightarrow> vec" where
  "predicted_weights s =
     (let lambda' = real_of_int (3 - n_aug s);
          w = (weights s)[0 := lambda' / (lambda' + real_of_int (n_aug s))]
      in foldl (\<lambda>w i. w[i := 1 / (2 * (lambda' + real_of_int (n_aug s)))])
           w [1..<sigma_count s])"

definition Prediction :: "eigen \<Rightarrow> real \<Rightarrow> UKF \<Rightarrow> UKF" where
  "Prediction E delta_t s =
     (let lambda' = real_of_int (3 - n_aug s);
          Xa = Xsig_aug E s;
          Xp = foldl (\<lambda>X i. write_sigma_point X i (predict_sigma_point delta_t (col Xa i)))
                 (Xsig_pred s) [0..<sigma_count s];
          w = predicted_weights s;
          x' = foldl (\<lambda>x' i. vadd x' (smul_vec (w ! i) (col Xp i)))
                 (fill_vec (x_state s) 0) [0..<sigma_count s];
          P' = foldl (\<lambda>P' i.
                   let x_diff = vsub (col Xp i) x';
                       x_diff = x_diff[3 := normalize_angle (x_diff ! 3)]
                   in madd P' (outer (smul_vec (w ! i) x_diff) x_diff))
                 (fill_mat (P_cov s) 0) [0..<sigma_count s]
      in s\<lparr> lambda := lambda', Xsig_pred := Xp, weights := w, x_state := x', P_cov := P' \<rparr>)"

section \<open>The lidar update\<close>

definition H_lidar :: mat where
  "H_lidar = [[1, 0, 0, 0, 0],
              [0, 1, 0, 0, 0]]"

definition S_lidar :: "UKF \<Rightarrow> mat" where
  \<comment> \<open>the measurement covariance \<^verbatim>\<open>S = H_*P_*H_.transpose() + R_\<close>\<close>
  "S_lidar s =
     madd (mmul (mmul H_lidar (P_cov s)) (transpose H_lidar))
       [[std_laspx s * std_laspx s, 0],
        [0, std_laspy s * std_laspy s]]"

definition UpdateLidar :: "eigen \<Rightarrow> MeasurementPackage \<Rightarrow> UKF \<Rightarrow> error + UKF" where
  "UpdateLidar E meas_package s =
     (if length (raw_measurements meas_package) \<noteq> length (mat_vec H_lidar (x_state s))
      then Inl SizeMismatch
      else
        let y = vsub (raw_measurements meas_package) (mat_vec H_lidar (x_state s));
            S = S_lidar s;
            K = mmul (mmul (P_cov s) (transpose H_lidar)) (inverse_mat E S);
            x' = vadd (x_state s) (mat_vec K y);
            I = identity (nat (n_x s));
            P' = mmul (msub I (mmul K H_lidar)) (P_cov s)
        in Inr (s\<lparr> x_state := x', P_cov := P',
                   NIS_laser := dot (vec_mat y (inverse_mat E S)) y \<rparr>))"

section \<open>The radar update\<close>

text \<open>
  One iteration of the loop "predict measurement sigma" on the pair of
  \<^verbatim>\<open>Xsig_pred_\<close> and \<^verbatim>\<open>Zsig_pred\<close>: the clamp is an assignment to the member
  \<^verbatim>\<open>Xsig_pred_\<close>.
\<close>

definition radar_sigma_point :: "mat \<times> mat \<Rightarrow> nat \<Rightarrow> mat \<times> mat" where
  "radar_sigma_point XZ i =
     (let X = fst XZ; Z = snd XZ;
          X = (if \<bar>coeff X 0 i\<bar> < 0.001 \<and> \<bar>coeff X 1 i\<bar> < 0.001
               then set_coeff (set_coeff X 0 i 0.01) 1 i 0.01
               else X);
          Z = set_coeff Z 0 i (sqrt (coeff X 0 i * coeff X 0 i + coeff X 1 i * coeff X 1 i));
          Z = set_coeff Z 1 i (atan2 (coeff X 1 i) (coeff X 0 i));
          Z = set_coeff Z 2 i
                ((coeff X 0 i * cos (coeff X 3 i) * coeff X 2 i
                  + coeff X 1 i * sin (coeff X 3 i) * coeff X 2 i) / coeff Z 0 i)
      in (X, Z))"

definition radar_sigma_points :: "UKF \<Rightarrow> mat \<times> mat" where
  "radar_sigma_points s =
     foldl radar_sigma_point (Xsig_pred s, zero_mat 3 (sigma_count s)) [0..<sigma_count s]"

definition z_pred_radar :: "UKF \<Rightarrow> vec" where
  \<comment> \<open>the predicted measurement mean \<^verbatim>\<open>z_pred\<close>\<close>
  "z_pred_radar s =
     foldl (\<lambda>z i. vadd z (smul_vec (weights s ! i) (col (snd (radar_sigma_points s)) i)))
       (fill_vec (zero_vec 3) 0) [0..<sigma_count s]"

definition ST_radar :: "UKF \<Rightarrow> mat \<times> mat" where
  \<comment> \<open>the sums \<^verbatim>\<open>S_\<close> and \<^verbatim>\<open>T_\<close> at the end of the loop over the sigma points\<close>
  "ST_radar s =
     foldl (\<lambda>ST i.
        let z_diff = vsub (col (snd (radar_sigma_points s)) i) (z_pred_radar s);
            z_diff = z_diff[1 := normalize_angle (z_diff ! 1)];
            S' = madd (fst ST) (outer (smul_vec (weights s ! i) z_diff) z_diff);
            x_diff = vsub (col (fst (radar_sigma_points s)) i) (x_state s);
            x_diff = x_diff[3 := normalize_angle (x_diff ! 3)];
            T' = madd (snd ST) (outer (smul_vec (weights s ! i) x_diff) z_diff)
        in (S', T'))
       (fill_mat (zero_mat 3 3) 0, fill_mat (zero_mat (nat (n_x s)) 3) 0)
       [0..<sigma_count s]"

definition S_radar :: "UKF \<Rightarrow> mat" where
  \<comment> \<open>\<^verbatim>\<open>S_ = S_ + R_\<close>\<close>
  "S_radar s =
     madd (fst (ST_radar s))
       [[std_radr s * std_radr s, 0, 0],
        [0, std_radphi s * std_radphi s, 0],
        [0, 0, std_radrd s * std_radrd s]]"

definition UpdateRadar :: "eigen \<Rightarrow> MeasurementPackage \<Rightarrow> UKF \<Rightarrow> error + UKF" where
  "UpdateRadar E meas_package s =
     (let Xp = fst (radar_sigma_points s);
          z_pred = z_pred_radar s;
          S = S_radar s;
          K = mmul (snd (ST_radar s)) (inverse_mat E S)
      in if length (raw_measurements meas_package) \<noteq> length z_pred
         then Inl SizeMismatch
         else
           let z_diff = vsub (raw_measurements meas_package) z_pred;
               z_diff = z_diff[1 := normalize_angle (z_diff ! 1)];
               x' = vadd (x_state s) (mat_vec K z_diff);
               P' = msub (P_cov s) (mmul (mmul K S) (transpose K))
           in Inr (s\<lparr> Xsig_pred := Xp, x_state := x', P_cov := P',
                      NIS_radar := dot (vec_mat z_diff (inverse_mat E S)) z_diff \<rparr>))"

section \<open>Measurement dispatch\<close>

text \<open>
  In the radar bootstrap the variables \<^verbatim>\<open>rho\<close>, \<^verbatim>\<open>phi\<close>, \<^verbatim>\<open>rhodot\<close>, \<^verbatim>\<open>px\<close> and
  \<^verbatim>\<open>py\<close> are declared \<^verbatim>\<open>float\<close>: each holds the single-precision rounding of the
  value of its initialiser (the rounding inside the single-precision product is not
  modelled separately). The elapsed time is the difference of two \<^verbatim>\<open>long long\<close>
  timestamps, a 64-bit subtraction (a signed overflow, undefined in C++, wraps as on the
  usual targets), converted to \<^verbatim>\<open>double\<close> (exactly, up to \<open>2\<^sup>5\<^sup>3\<close> microseconds;
  the rounding beyond is not modelled) and divided by \<open>1000000.0\<close>.
\<close>

definition ProcessMeasurement ::
  "eigen \<Rightarrow> MeasurementPackage \<Rightarrow> UKF \<Rightarrow> call list \<times> (error + UKF)" where
  "ProcessMeasurement E meas_package s =
     (if \<not> is_initialized s then
        (case sensor_type meas_package of
           RADAR \<Rightarrow>
             if length (raw_measurements meas_package) < 3 then ([], Inl IndexOutOfRange)
             else
               let rho = to_float (raw_measurements meas_package ! 0);
                   phi = to_float (raw_measurements meas_package ! 1);
                   rhodot = to_float (raw_measurements meas_package ! 2);
                   px = to_float (rho * cos phi);
                   py = to_float (rho * sin phi)
               in ([], Inr (s\<lparr> x_state := [px, py, rhodot, phi, 0],
                               use_radar := False,
                               time_us := timestamp meas_package,
                               is_initialized := True \<rparr>))
         | LASER \<Rightarrow>
             if length (raw_measurements meas_package) < 2 then ([], Inl IndexOutOfRange)
             else
               ([], Inr (s\<lparr> x_state := [raw_measurements meas_package ! 0,
                                         raw_measurements meas_package ! 1, 0, 0, 0],
                            use_laser := False,
                            time_us := timestamp meas_package,
                            is_initialized := True \<rparr>)))
      else
        let dt = real_of_int (sint (timestamp meas_package - time_us s)) / 1000000;
            s1 = Prediction E dt (s\<lparr> time_us := timestamp meas_package \<rparr>)
        in if use_laser s1 then
             ([Prediction_call dt, UpdateLidar_call],
              case UpdateLidar E meas_package s1 of
                Inl e \<Rightarrow> Inl e
              | Inr s2 \<Rightarrow> Inr (s2\<lparr> use_laser := False, use_radar := True \<rparr>))
           else if use_radar s1 then
             ([Prediction_call dt, UpdateRadar_call],
              case UpdateRadar E meas_package s1 of
                Inl e \<Rightarrow> Inl e
              | Inr s2 \<Rightarrow> Inr (s2\<lparr> use_radar := False, use_laser := True \<rparr>))
           else ([Prediction_call dt], Inr s1))"

section \<open>Runs of the filter\<close>

text \<open>
  The states the filter can be in: the constructor's state, and every state that a call of
  \<^verbatim>\<open>ProcessMeasurement\<close> returns from one of them.
\<close>

inductive reachable :: "eigen \<Rightarrow> UKF \<Rightarrow> bool" for E :: eigen where
  reachable_ctor: "reachable E UKF_ctor"
| reachable_step:
    "reachable E s \<Longrightarrow> snd (ProcessMeasurement E m s) = Inr s' \<Longrightarrow> reachable E s'"

section \<open>Notions for the statements\<close>

text \<open>The calls of an update in the list of calls.\<close>

definition is_update :: "call \<Rightarrow> bool" where
  "is_update c = (c = UpdateLidar_call \<or> c = UpdateRadar_call)"

text \<open>A matrix with \<open>r\<close> rows and \<open>c\<close> columns.\<close>

definition is_mat :: "nat \<Rightarrow> nat \<Rightarrow> mat \<Rightarrow> bool" where
  "is_mat r c M = (length M = r \<and> list_all (\<lambda>row. length row = c) M)"

text \<open>
  The sizes the constructor allocates: five state coefficients, five rows of the
  covariance, and five rows and \<open>2 n_aug + 1 = 15\<close> columns of sigma points with as many
  weights.
\<close>

definition allocated :: "UKF \<Rightarrow> bool" where
  "allocated s \<longleftrightarrow>
     n_x s = 5 \<and> n_aug s = 7 \<and> length (x_state s) = 5 \<and> length (P_cov s) = 5
     \<and> length (weights s) = sigma_count s \<and> is_mat 5 (sigma_count s) (Xsig_pred s)"

text \<open>
  The column of \<^verbatim>\<open>Xsig_pred_\<close> after the clamp of \<^verbatim>\<open>UpdateRadar\<close>, and the column of
  \<^verbatim>\<open>Zsig_pred\<close> computed from a column of \<^verbatim>\<open>Xsig_pred_\<close>: the loop "predict
  measurement sigma" read column by column.
\<close>

definition clamp_column :: "vec \<Rightarrow> vec" where
  "clamp_column c =
     (if \<bar>c ! 0\<bar> < 0.001 \<and> \<bar>c ! 1\<bar> < 0.001 then c[0 := 0.01, 1 := 0.01] else c)"

definition radar_column :: "vec \<Rightarrow> vec" where
  "radar_column c =
     [sqrt (c ! 0 * c ! 0 + c ! 1 * c ! 1),
      atan2 (c ! 1) (c ! 0),
      (c ! 0 * cos (c ! 3) * c ! 2 + c ! 1 * sin (c ! 3) * c ! 2)
        / sqrt (c ! 0 * c ! 0 + c ! 1 * c ! 1)]"

section \<open>Concrete inputs\<close>

text \<open>
  A stand-in for the library, to evaluate the model at concrete inputs: the facts
  evaluated with it do not depend on what it returns.
\<close>

definition eigen_stub :: eigen where
  "eigen_stub = \<lparr> llt_matrixL = (\<lambda>M. M), inverse_mat = (\<lambda>M. M) \<rparr>"

text \<open>
  The states after a first lidar measurement \<open>(1, 2)\<close> and after a first radar
  measurement \<open>(2, 0, 3)\<close>, at time \<open>1000000\<close>.
\<close>

definition bootstrapped :: UKF where
  "bootstrapped =
     UKF_ctor\<lparr> x_state := [1, 2, 0, 0, 0], use_laser := False,
               time_us := 1000000, is_initialized := True \<rparr>"

definition bootstrapped_radar :: UKF where
  "bootstrapped_radar =
     UKF_ctor\<lparr> x_state := [2, 0, 3, 0, 0], use_radar := False,
               time_us := 1000000, is_initialized := True \<rparr>"

text \<open>Two states for evaluating the prediction of the mean sigma point.\<close>

definition straight_state :: UKF where
  "straight_state = UKF_ctor\<lparr> x_state := [3, 4, 10, 0, 0] \<rparr>"

definition turning_state :: UKF where
  "turning_state = UKF_ctor\<lparr> x_state := [3, 4, 10, 0, 1] \<rparr>"

text \<open>
  A state whose matrix \<^verbatim>\<open>Xsig_pred_\<close> has the first column \<open>(1, 0, 0, 0, 0)\<close> and zero
  columns otherwise.
\<close>

definition radar_sample :: UKF where
  "radar_sample =
     UKF_ctor\<lparr> Xsig_pred := (1 # replicate 14 0) # replicate 4 (replicate 15 0) \<rparr>"

section \<open>The angle reduction\<close>

lemma cos_nonpos_upper: "pi / 2 \<le> a \<Longrightarrow> a \<le> pi \<Longrightarrow> cos a \<le> 0"
proof -
  assume h: "pi / 2 \<le> a" "a \<le> pi"
  have "0 \<le> sin (a - pi / 2)" using h by (intro sin_ge_zero) auto
  moreover have "sin (a - pi / 2) = - cos a" by (simp add: sin_diff)
  ultimately show ?thesis by simp
qed

lemma cos_nonpos_lower: "- pi \<le> a \<Longrightarrow> a \<le> - (pi / 2) \<Longrightarrow> cos a \<le> 0"
  using cos_nonpos_upper [of "- a"] by simp

lemma cos_pos_range: "- pi < a \<Longrightarrow> a \<le> pi \<Longrightarrow> 0 < cos a \<Longrightarrow> - (pi / 2) < a \<and> a < pi / 2"
proof -
  assume h: "- pi < a" "a \<le> pi" "0 < cos a"
  have "\<not> pi / 2 \<le> a" using cos_nonpos_upper [of a] h by auto
  moreover have "\<not> a \<le> - (pi / 2)" using cos_nonpos_lower [of a] h by auto
  ultimately show ?thesis by simp
qed

lemma atan2_range: "- pi < atan2 y x \<and> atan2 y x \<le> pi"
proof -
  have b: "- (pi / 2) < arctan (y / x)" "arctan (y / x) < pi / 2"
    using arctan_lbound [of "y / x"] arctan_ubound [of "y / x"] by auto
  have pos: "0 < pi" by simp
  show ?thesis
  proof (cases "0 < x")
    case True
    then show ?thesis using b pos by (simp add: atan2_def)
  next
    case False
    show ?thesis
    proof (cases "x < 0")
      case xneg: True
      show ?thesis
      proof (cases "0 \<le> y")
        case True
        then have "y / x \<le> 0" using xneg by (simp add: divide_nonneg_neg)
        then have "arctan (y / x) \<le> 0" by (simp add: arctan_le_zero_iff)
        then show ?thesis using b xneg True pos by (simp add: atan2_def)
      next
        case False
        then have "0 < y / x" using xneg by (simp add: divide_neg_neg)
        then have "0 < arctan (y / x)" by (simp add: zero_less_arctan_iff)
        then show ?thesis using b xneg False pos by (simp add: atan2_def)
      qed
    next
      case xz: False
      have x0: "x = 0" using xz False by simp
      show ?thesis
        by (simp add: atan2_def x0; insert pi_gt_zero; linarith)
    qed
  qed
qed

lemma atan2_sin_cos:
  assumes "- pi < a" "a \<le> pi"
  shows "atan2 (sin a) (cos a) = a"
proof (cases "0 < cos a")
  case True
  then have r: "- (pi / 2) < a" "a < pi / 2" using cos_pos_range assms by auto
  have "arctan (sin a / cos a) = a" using arctan_tan [OF r] by (simp add: tan_def)
  then show ?thesis using True by (simp add: atan2_def)
next
  case False
  show ?thesis
  proof (cases "cos a < 0")
    case cneg: True
    have out: "\<not> (- (pi / 2) \<le> a \<and> a \<le> pi / 2)"
      using cos_ge_zero [of a] cneg by auto
    show ?thesis
    proof (cases "0 \<le> sin a")
      case True
      have "0 \<le> a"
      proof (rule ccontr)
        assume "\<not> 0 \<le> a"
        then have "0 < - a" "- a < pi" using assms by auto
        then have "0 < sin (- a)" by (rule sin_gt_zero)
        then show False using True by simp
      qed
      then have r: "- (pi / 2) < a - pi" "a - pi < pi / 2" using out assms by auto
      have "tan (a - pi) = tan a" by (simp add: tan_def sin_diff cos_diff)
      then have "arctan (sin a / cos a) = a - pi" using arctan_tan [OF r] by (simp add: tan_def)
      then show ?thesis using cneg True by (simp add: atan2_def)
    next
      case False
      have "a < 0"
      proof (rule ccontr)
        assume "\<not> a < 0"
        then have "0 \<le> sin a" using assms by (intro sin_ge_zero) auto
        then show False using False by simp
      qed
      then have r: "- (pi / 2) < a + pi" "a + pi < pi / 2" using out assms by auto
      have "tan (a + pi) = tan a" by (simp add: tan_def sin_add cos_add)
      then have "arctan (sin a / cos a) = a + pi" using arctan_tan [OF r] by (simp add: tan_def)
      then show ?thesis using cneg False by (simp add: atan2_def)
    qed
  next
    case cz: False
    then have c0: "cos a = 0" using False by simp
    have "sin a = 1 \<or> sin a = - 1" using sin_cos_squared_add [of a] c0
      by (simp add: power2_eq_1_iff)
    then show ?thesis
    proof
      assume s1: "sin a = 1"
      have "0 \<le> a"
      proof (rule ccontr)
        assume "\<not> 0 \<le> a"
        then have "0 < - a" "- a < pi" using assms by auto
        then have "0 < sin (- a)" by (rule sin_gt_zero)
        then show False using s1 by simp
      qed
      then have "a = pi / 2"
        using cos_inj_pi [of a "pi / 2"] assms c0 pi_gt_zero by simp
      then show ?thesis using c0 s1 by (simp add: atan2_def)
    next
      assume s1: "sin a = - 1"
      have "a < 0"
      proof (rule ccontr)
        assume "\<not> a < 0"
        then have "0 \<le> sin a" using assms by (intro sin_ge_zero) auto
        then show False using s1 by simp
      qed
      then have "- a = pi / 2"
        using cos_inj_pi [of "- a" "pi / 2"] assms c0 pi_gt_zero by simp
      then have "a = - (pi / 2)" by simp
      then show ?thesis using c0 s1 by (simp add: atan2_def)
    qed
  qed
qed

section \<open>Frame properties and sizes\<close>

lemma Prediction_frame:
  "is_initialized (Prediction E dt s) = is_initialized s"
  "use_laser (Prediction E dt s) = use_laser s"
  "use_radar (Prediction E dt s) = use_radar s"
  "time_us (Prediction E dt s) = time_us s"
  "n_aug (Prediction E dt s) = n_aug s"
  "n_x (Prediction E dt s) = n_x s"
  by (simp_all add: Prediction_def Let_def)

lemma UpdateLidar_frame:
  assumes "UpdateLidar E m s = Inr s'"
  shows "is_initialized s' = is_initialized s" "use_laser s' = use_laser s"
    "use_radar s' = use_radar s" "time_us s' = time_us s" "Xsig_pred s' = Xsig_pred s"
    "weights s' = weights s"
  using assms by (auto simp: UpdateLidar_def Let_def split: if_splits)

lemma UpdateRadar_frame:
  assumes "UpdateRadar E m s = Inr s'"
  shows "is_initialized s' = is_initialized s" "use_laser s' = use_laser s"
    "use_radar s' = use_radar s" "time_us s' = time_us s" "weights s' = weights s"
  using assms by (auto simp: UpdateRadar_def Let_def split: if_splits)

lemma UpdateLidar_tag: "UpdateLidar E (m\<lparr>sensor_type := t\<rparr>) s = UpdateLidar E m s"
  by (simp add: UpdateLidar_def Let_def)

lemma UpdateRadar_tag: "UpdateRadar E (m\<lparr>sensor_type := t\<rparr>) s = UpdateRadar E m s"
  by (simp add: UpdateRadar_def Let_def)

lemma ProcessMeasurement_initialized:
  assumes "is_initialized s"
  shows "ProcessMeasurement E m s =
    (let dt = real_of_int (sint (timestamp m - time_us s)) / 1000000;
         s1 = Prediction E dt (s\<lparr> time_us := timestamp m \<rparr>)
     in if use_laser s then
          ([Prediction_call dt, UpdateLidar_call],
           case UpdateLidar E m s1 of Inl e \<Rightarrow> Inl e
           | Inr s2 \<Rightarrow> Inr (s2\<lparr> use_laser := False, use_radar := True \<rparr>))
        else if use_radar s then
          ([Prediction_call dt, UpdateRadar_call],
           case UpdateRadar E m s1 of Inl e \<Rightarrow> Inl e
           | Inr s2 \<Rightarrow> Inr (s2\<lparr> use_radar := False, use_laser := True \<rparr>))
        else ([Prediction_call dt], Inr s1))"
  using assms by (simp add: ProcessMeasurement_def Let_def Prediction_frame)

lemma ProcessMeasurement_flags:
  assumes "snd (ProcessMeasurement E m s) = Inr s'"
    and "if is_initialized s then use_laser s \<noteq> use_radar s else use_laser s \<and> use_radar s"
  shows "is_initialized s' \<and> use_laser s' \<noteq> use_radar s'"
proof (cases "is_initialized s")
  case False
  with assms show ?thesis
    by (auto simp: ProcessMeasurement_def Let_def split: SensorType.splits if_splits)
next
  case True
  with assms show ?thesis
    by (auto simp: ProcessMeasurement_initialized Let_def Prediction_frame
        split: if_splits sum.splits dest: UpdateLidar_frame(1) UpdateRadar_frame(1))
qed

lemma reachable_flags:
  "reachable E s \<Longrightarrow>
     (if is_initialized s then use_laser s \<noteq> use_radar s else use_laser s \<and> use_radar s)"
proof (induction rule: reachable.induct)
  case reachable_ctor
  show ?case by (simp add: UKF_ctor_def)
next
  case (reachable_step s m s')
  then show ?case using ProcessMeasurement_flags by presburger
qed

lemma foldl_invariant:
  "Q a \<Longrightarrow> (\<And>b i. Q b \<Longrightarrow> Q (f b i)) \<Longrightarrow> Q (foldl f a xs)"
  by (induction xs arbitrary: a) auto

lemma length_set_coeff [simp]: "length (set_coeff M r c v) = length M"
  by (simp add: set_coeff_def)

lemma length_col [simp]: "length (col M c) = length M"
  by (simp add: col_def)

lemma length_vadd [simp]: "length (vadd u v) = min (length u) (length v)"
  by (simp add: vadd_def)

lemma length_vsub [simp]: "length (vsub u v) = min (length u) (length v)"
  by (simp add: vsub_def)

lemma length_smul_vec [simp]: "length (smul_vec a v) = length v"
  by (simp add: smul_vec_def)

lemma length_mat_vec [simp]: "length (mat_vec A v) = length A"
  by (simp add: mat_vec_def)

lemma length_radar_sigma_point [simp]:
  "length (snd (radar_sigma_point XZ i)) = length (snd XZ)"
  "length (fst (radar_sigma_point XZ i)) = length (fst XZ)"
  by (simp_all add: radar_sigma_point_def Let_def)

lemma length_radar_sigma_points:
  "length (snd (radar_sigma_points s)) = 3"
  "length (fst (radar_sigma_points s)) = length (Xsig_pred s)"
  unfolding radar_sigma_points_def
  by (rule foldl_invariant; simp add: zero_mat_def)+

lemma length_z_pred_radar [simp]: "length (z_pred_radar s) = 3"
  unfolding z_pred_radar_def
  by (rule foldl_invariant) (simp_all add: fill_vec_def zero_vec_def length_radar_sigma_points)

lemma UpdateLidar_returns:
  "length (raw_measurements m) = 2 \<Longrightarrow> \<exists>s'. UpdateLidar E m s = Inr s'"
  "length (raw_measurements m) \<noteq> 2 \<Longrightarrow> UpdateLidar E m s = Inl SizeMismatch"
  by (simp_all add: UpdateLidar_def Let_def H_lidar_def)

lemma UpdateRadar_returns:
  "length (raw_measurements m) = 3 \<Longrightarrow> \<exists>s'. UpdateRadar E m s = Inr s'"
  "length (raw_measurements m) \<noteq> 3 \<Longrightarrow> UpdateRadar E m s = Inl SizeMismatch"
  by (simp_all add: UpdateRadar_def Let_def)

section \<open>Single-precision values\<close>

lemma round_half_even_of_int [simp]: "round_half_even (real_of_int z) = z"
  by (simp add: round_half_even_def)


lemma to_float_of_int:
  assumes "\<bar>n\<bar> < 2 ^ 24"
  shows "to_float (real_of_int n) = real_of_int n"
proof (cases "n = 0")
  case True
  then show ?thesis by (simp add: to_float_def)
next
  case False
  define k where "k = \<lfloor>log 2 \<bar>real_of_int n\<bar>\<rfloor>"
  have one: "1 \<le> \<bar>real_of_int n\<bar>" using False by (simp flip: of_int_abs)
  have lt: "\<bar>real_of_int n\<bar> < 2 ^ 24"
    using assms by (metis of_int_abs of_int_less_numeral_power_cancel_iff)
  have k0: "0 \<le> k" unfolding k_def using one by simp
  have "log 2 \<bar>real_of_int n\<bar> < 24"
    using lt one by (simp add: log_less_iff)
  then have k23: "k \<le> 23" unfolding k_def by (simp add: floor_le_iff)
  define j where "j = nat (23 - k)"
  have e: "max (k - 23) (- 149) = - int j" using k0 k23 by (simp add: j_def)
  have p: "2 powr real_of_int (- int j) = 1 / 2 ^ j"
    by (simp add: powr_minus powr_realpow divide_simps)
  have q: "real_of_int n / (1 / 2 ^ j) = real_of_int (n * 2 ^ j)" by simp
  show ?thesis
    using False
    by (simp only: to_float_def Let_def k_def [symmetric] e p q round_half_even_of_int)
      simp
qed

lemma to_float_numeral [simp]:
  "(numeral w :: int) < 2 ^ 24 \<Longrightarrow> to_float (numeral w) = numeral w"
  using to_float_of_int [of "numeral w"] by simp

lemma to_float_0 [simp]: "to_float 0 = 0"
  by (simp add: to_float_def)

lemma to_float_1 [simp]: "to_float 1 = 1"
  using to_float_of_int [of 1] by simp


section \<open>Measurement dispatch: the claims\<close>

text \<open>
  Claim C1. For every call of \<^verbatim>\<open>ProcessMeasurement\<close> on an initialised filter (a state
  reached from the constructor), exactly one of \<^verbatim>\<open>UpdateLidar\<close> and
  \<^verbatim>\<open>UpdateRadar\<close> is called after \<^verbatim>\<open>Prediction\<close>, and the flags select it:
  \<^verbatim>\<open>UpdateLidar\<close> when \<^verbatim>\<open>use_laser_\<close> is set, and then the state it returns gets
  \<^verbatim>\<open>use_laser_ = false\<close>, \<^verbatim>\<open>use_radar_ = true\<close>; otherwise \<^verbatim>\<open>use_radar_\<close> is
  set, \<^verbatim>\<open>UpdateRadar\<close> is called and the flags are set the other way round. The
  sensor tag of the measurement has no influence: the call with the tag replaced by any
  \<open>t\<close> gives the same result. (An update that is handed a measurement vector of the
  other sensor's size fails Eigen's size check: after a lidar bootstrap a LASER
  measurement is handed to \<^verbatim>\<open>UpdateRadar\<close>, after a radar bootstrap a RADAR measurement
  to \<^verbatim>\<open>UpdateLidar\<close>.)
\<close>

theorem ProcessMeasurement_dispatch:
  assumes "reachable E s" and "is_initialized s"
  shows "(let dt = real_of_int (sint (timestamp m - time_us s)) / 1000000;
              s1 = Prediction E dt (s\<lparr> time_us := timestamp m \<rparr>)
          in (use_laser s \<longrightarrow>
                ProcessMeasurement E m s =
                  ([Prediction_call dt, UpdateLidar_call],
                   map_sum id (\<lambda>s2. s2\<lparr> use_laser := False, use_radar := True \<rparr>)
                     (UpdateLidar E m s1)))
           \<and> (\<not> use_laser s \<longrightarrow> use_radar s \<and>
                ProcessMeasurement E m s =
                  ([Prediction_call dt, UpdateRadar_call],
                   map_sum id (\<lambda>s2. s2\<lparr> use_radar := False, use_laser := True \<rparr>)
                     (UpdateRadar E m s1))))
       \<and> length (filter is_update (fst (ProcessMeasurement E m s))) = 1
       \<and> ProcessMeasurement E (m\<lparr> sensor_type := t \<rparr>) s = ProcessMeasurement E m s"
proof -
  have one: "use_laser s \<noteq> use_radar s"
    using reachable_flags [OF assms(1)] assms(2) by simp
  have ms: "map_sum id f r = (case r of Inl e \<Rightarrow> Inl e | Inr a \<Rightarrow> Inr (f a))"
    for f :: "UKF \<Rightarrow> UKF" and r :: "error + UKF"
    by (cases r) simp_all
  show ?thesis
    using one assms(2)
    by (auto simp: ProcessMeasurement_initialized Let_def ms is_update_def
        UpdateLidar_tag UpdateRadar_tag)
qed

lemma bootstrap_lidar_sample:
  "ProcessMeasurement E \<lparr> timestamp = 1000000, sensor_type = LASER, raw_measurements = [1, 2] \<rparr>
     UKF_ctor = ([], Inr bootstrapped)"
  by (simp add: ProcessMeasurement_def UKF_ctor_def bootstrapped_def)

lemma reachable_bootstrapped: "reachable E bootstrapped"
  using reachable_step [OF reachable_ctor, of E
      "\<lparr> timestamp = 1000000, sensor_type = LASER, raw_measurements = [1, 2] \<rparr>" bootstrapped]
  by (simp add: bootstrap_lidar_sample)

lemma bootstrapped_fields:
  "is_initialized bootstrapped" "\<not> use_laser bootstrapped" "use_radar bootstrapped"
  "time_us bootstrapped = 1000000"
  by (simp_all add: bootstrapped_def UKF_ctor_def)

lemma bootstrap_radar_sample:
  "ProcessMeasurement E \<lparr> timestamp = 1000000, sensor_type = RADAR, raw_measurements = [2, 0, 3] \<rparr>
     UKF_ctor = ([], Inr bootstrapped_radar)"
  by (simp add: ProcessMeasurement_def UKF_ctor_def bootstrapped_radar_def)

lemma reachable_bootstrapped_radar: "reachable E bootstrapped_radar"
  using reachable_step [OF reachable_ctor, of E
      "\<lparr> timestamp = 1000000, sensor_type = RADAR, raw_measurements = [2, 0, 3] \<rparr>"
      bootstrapped_radar]
  by (simp add: bootstrap_radar_sample)

lemma bootstrapped_radar_fields:
  "is_initialized bootstrapped_radar" "use_laser bootstrapped_radar"
  "\<not> use_radar bootstrapped_radar" "time_us bootstrapped_radar = 1000000"
  by (simp_all add: bootstrapped_radar_def UKF_ctor_def)

theorem ProcessMeasurement_dispatch_witness:
  "reachable eigen_stub bootstrapped \<and> is_initialized bootstrapped
   \<and> \<not> use_laser bootstrapped \<and> use_radar bootstrapped
   \<and> ProcessMeasurement eigen_stub
        \<lparr> timestamp = 2000000, sensor_type = LASER, raw_measurements = [3, 4] \<rparr> bootstrapped
      = ([Prediction_call 1, UpdateRadar_call], Inl SizeMismatch)
   \<and> length (filter is_update (fst (ProcessMeasurement eigen_stub
        \<lparr> timestamp = 2000000, sensor_type = LASER, raw_measurements = [3, 4] \<rparr> bootstrapped))) = 1
   \<and> ProcessMeasurement eigen_stub
        \<lparr> timestamp = 2000000, sensor_type = RADAR, raw_measurements = [3, 4] \<rparr> bootstrapped
      = ProcessMeasurement eigen_stub
        \<lparr> timestamp = 2000000, sensor_type = LASER, raw_measurements = [3, 4] \<rparr> bootstrapped
   \<and> reachable eigen_stub bootstrapped_radar \<and> is_initialized bootstrapped_radar
   \<and> use_laser bootstrapped_radar
   \<and> ProcessMeasurement eigen_stub
        \<lparr> timestamp = 2000000, sensor_type = RADAR, raw_measurements = [1, 0, 0] \<rparr>
        bootstrapped_radar
      = ([Prediction_call 1, UpdateLidar_call], Inl SizeMismatch)"
proof -
  have a: "ProcessMeasurement eigen_stub
        \<lparr> timestamp = 2000000, sensor_type = LASER, raw_measurements = [3, 4] \<rparr> bootstrapped
      = ([Prediction_call 1, UpdateRadar_call], Inl SizeMismatch)
   \<and> length (filter is_update (fst (ProcessMeasurement eigen_stub
        \<lparr> timestamp = 2000000, sensor_type = LASER, raw_measurements = [3, 4] \<rparr> bootstrapped))) = 1
   \<and> ProcessMeasurement eigen_stub
        \<lparr> timestamp = 2000000, sensor_type = RADAR, raw_measurements = [3, 4] \<rparr> bootstrapped
      = ProcessMeasurement eigen_stub
        \<lparr> timestamp = 2000000, sensor_type = LASER, raw_measurements = [3, 4] \<rparr> bootstrapped"
    using ProcessMeasurement_dispatch [where E = eigen_stub and s = bootstrapped
        and m = "\<lparr> timestamp = 2000000, sensor_type = LASER, raw_measurements = [3, 4] \<rparr>"
        and t = RADAR, OF reachable_bootstrapped bootstrapped_fields(1)]
    by (simp add: bootstrapped_fields Let_def UpdateRadar_returns(2) is_update_def)
  have b: "ProcessMeasurement eigen_stub
        \<lparr> timestamp = 2000000, sensor_type = RADAR, raw_measurements = [1, 0, 0] \<rparr>
        bootstrapped_radar
      = ([Prediction_call 1, UpdateLidar_call], Inl SizeMismatch)"
    using ProcessMeasurement_dispatch [where E = eigen_stub and s = bootstrapped_radar
        and m = "\<lparr> timestamp = 2000000, sensor_type = RADAR, raw_measurements = [1, 0, 0] \<rparr>"
        and t = RADAR, OF reachable_bootstrapped_radar bootstrapped_radar_fields(1)]
    by (simp add: bootstrapped_radar_fields Let_def UpdateLidar_returns(2))
  show ?thesis
    using a b reachable_bootstrapped [of eigen_stub] reachable_bootstrapped_radar [of eigen_stub]
    by (simp add: bootstrapped_fields bootstrapped_radar_fields is_update_def)
qed

text \<open>
  Claim C9. After every call of \<^verbatim>\<open>ProcessMeasurement\<close> that returns, starting with the
  bootstrapping call on the constructor's state, the filter is initialised and exactly one
  of \<^verbatim>\<open>use_laser_\<close> and \<^verbatim>\<open>use_radar_\<close> is true. So every later call makes exactly
  one update call, and two successive calls alternate: the first calls \<^verbatim>\<open>UpdateLidar\<close>
  exactly when the second calls \<^verbatim>\<open>UpdateRadar\<close>, and the other way round.
\<close>

theorem flags_alternate:
  assumes "reachable E s" and "snd (ProcessMeasurement E m s) = Inr s1"
    and "snd (ProcessMeasurement E m1 s1) = Inr s2"
  shows "is_initialized s1 \<and> use_laser s1 \<noteq> use_radar s1
       \<and> is_initialized s2 \<and> use_laser s2 \<noteq> use_radar s2
       \<and> length (filter is_update (fst (ProcessMeasurement E m1 s1))) = 1
       \<and> length (filter is_update (fst (ProcessMeasurement E m2 s2))) = 1
       \<and> (UpdateLidar_call \<in> set (fst (ProcessMeasurement E m1 s1))
            \<longleftrightarrow> UpdateRadar_call \<in> set (fst (ProcessMeasurement E m2 s2)))
       \<and> (UpdateRadar_call \<in> set (fst (ProcessMeasurement E m1 s1))
            \<longleftrightarrow> UpdateLidar_call \<in> set (fst (ProcessMeasurement E m2 s2)))"
proof -
  have f1: "is_initialized s1 \<and> use_laser s1 \<noteq> use_radar s1"
    using ProcessMeasurement_flags [OF assms(2) reachable_flags [OF assms(1)]] .
  have r1: "reachable E s1" using assms(1,2) by (rule reachable_step)
  have f2: "is_initialized s2 \<and> use_laser s2 \<noteq> use_radar s2"
    using ProcessMeasurement_flags [OF assms(3) reachable_flags [OF r1]] .
  have flip: "use_laser s2 = (\<not> use_laser s1)"
    using assms(3) f1
    by (auto simp: ProcessMeasurement_initialized Let_def split: if_splits sum.splits)
  have c1: "fst (ProcessMeasurement E m1 s1) =
      [Prediction_call (real_of_int (sint (timestamp m1 - time_us s1)) / 1000000),
       if use_laser s1 then UpdateLidar_call else UpdateRadar_call]"
    using f1 by (auto simp: ProcessMeasurement_initialized Let_def)
  have c2: "fst (ProcessMeasurement E m2 s2) =
      [Prediction_call (real_of_int (sint (timestamp m2 - time_us s2)) / 1000000),
       if use_laser s2 then UpdateLidar_call else UpdateRadar_call]"
    using f2 by (auto simp: ProcessMeasurement_initialized Let_def)
  show ?thesis using f1 f2 flip by (simp add: c1 c2 is_update_def)
qed

theorem flags_alternate_witness:
  "reachable eigen_stub UKF_ctor
   \<and> snd (ProcessMeasurement eigen_stub
        \<lparr> timestamp = 1000000, sensor_type = LASER, raw_measurements = [1, 2] \<rparr> UKF_ctor)
      = Inr bootstrapped
   \<and> is_initialized bootstrapped \<and> use_laser bootstrapped \<noteq> use_radar bootstrapped
   \<and> (\<exists>s2. snd (ProcessMeasurement eigen_stub
          \<lparr> timestamp = 2000000, sensor_type = RADAR, raw_measurements = [1, 0, 0] \<rparr> bootstrapped)
         = Inr s2
       \<and> is_initialized s2 \<and> use_laser s2 \<noteq> use_radar s2
       \<and> UpdateRadar_call \<in> set (fst (ProcessMeasurement eigen_stub
          \<lparr> timestamp = 2000000, sensor_type = RADAR, raw_measurements = [1, 0, 0] \<rparr> bootstrapped))
       \<and> UpdateLidar_call \<in> set (fst (ProcessMeasurement eigen_stub
          \<lparr> timestamp = 3000000, sensor_type = RADAR, raw_measurements = [1, 0, 0] \<rparr> s2)))"
proof -
  let ?m0 = "\<lparr> timestamp = 1000000, sensor_type = LASER, raw_measurements = [1, 2] \<rparr>"
  let ?m1 = "\<lparr> timestamp = 2000000, sensor_type = RADAR, raw_measurements = [1, 0, 0] \<rparr>"
  let ?m2 = "\<lparr> timestamp = 3000000, sensor_type = RADAR, raw_measurements = [1, 0, 0] \<rparr>"
  have h1: "reachable eigen_stub UKF_ctor" by (rule reachable_ctor)
  have h2: "snd (ProcessMeasurement eigen_stub ?m0 UKF_ctor) = Inr bootstrapped"
    by (simp add: bootstrap_lidar_sample)
  have c1: "fst (ProcessMeasurement eigen_stub ?m1 bootstrapped)
      = [Prediction_call 1, UpdateRadar_call]"
    by (simp add: ProcessMeasurement_initialized bootstrapped_fields Let_def)
  obtain s' where s': "UpdateRadar eigen_stub ?m1
      (Prediction eigen_stub 1 (bootstrapped\<lparr> time_us := 2000000 \<rparr>)) = Inr s'"
    using UpdateRadar_returns(1) [of ?m1] by auto
  then obtain s2 where h3: "snd (ProcessMeasurement eigen_stub ?m1 bootstrapped) = Inr s2"
    by (simp add: ProcessMeasurement_initialized bootstrapped_fields Let_def)
  from flags_alternate [where ?m2.0 = ?m2, OF h1 h2 h3] c1 h1 h2 h3 show ?thesis
    by (intro conjI exI [of _ s2]) simp_all
qed

text \<open>
  Claim C2 says that a call with a timestamp earlier than the stored clock fails fast with
  an invalid-input condition and performs no prediction with a negative elapsed time. The
  source has no such test. At the bootstrapped state, whose clock is \<open>1000000\<close>, a radar
  measurement with timestamp \<open>0\<close> makes \<^verbatim>\<open>ProcessMeasurement\<close> call
  \<^verbatim>\<open>Prediction\<close> with \<open>dt = -1\<close> and then \<^verbatim>\<open>UpdateRadar\<close>, and the call returns a
  state whose clock is \<open>0\<close>.
\<close>

theorem earlier_timestamp_counterexample:
  "is_initialized bootstrapped
   \<and> sint (timestamp \<lparr> timestamp = 0, sensor_type = RADAR, raw_measurements = [1, 0, 0] \<rparr>)
       < sint (time_us bootstrapped)
   \<and> fst (ProcessMeasurement eigen_stub
        \<lparr> timestamp = 0, sensor_type = RADAR, raw_measurements = [1, 0, 0] \<rparr> bootstrapped)
      = [Prediction_call (- 1), UpdateRadar_call]
   \<and> map_sum id time_us (snd (ProcessMeasurement eigen_stub
        \<lparr> timestamp = 0, sensor_type = RADAR, raw_measurements = [1, 0, 0] \<rparr> bootstrapped))
      = Inr 0"
proof -
  let ?m = "\<lparr> timestamp = 0, sensor_type = RADAR, raw_measurements = [1, 0, 0] \<rparr>"
  let ?s1 = "Prediction eigen_stub (- 1) (bootstrapped\<lparr> time_us := 0 \<rparr>)"
  obtain s' where s': "UpdateRadar eigen_stub ?m ?s1 = Inr s'"
    using UpdateRadar_returns(1) [of ?m] by auto
  have "time_us s' = 0"
    using UpdateRadar_frame(4) [OF s'] by (simp add: Prediction_frame)
  then show ?thesis
    using s' by (simp add: ProcessMeasurement_initialized bootstrapped_fields Let_def)
qed

text \<open>
  Claim C2, amended. \<^verbatim>\<open>ProcessMeasurement\<close> does not test the timestamp. On an
  initialised filter, a measurement whose timestamp is earlier than the stored clock, by
  a difference that fits the 64-bit range of \<^verbatim>\<open>long long\<close> (at most \<open>2\<^sup>6\<^sup>3\<close>
  microseconds), is processed like any other: \<open>dt\<close> is the negative difference of the
  two timestamps in seconds, the clock is set to the earlier timestamp, \<^verbatim>\<open>Prediction\<close>
  is called with the negative \<open>dt\<close>, and the update selected by the flags follows. (A
  larger difference overflows the subtraction, see \<open>earlier_timestamp_overflow\<close>.)
\<close>

theorem earlier_timestamp_is_predicted:
  assumes "is_initialized s" and "sint (timestamp m) < sint (time_us s)"
    and "- (2 ^ 63) \<le> sint (timestamp m) - sint (time_us s)"
  shows "real_of_int (sint (timestamp m - time_us s)) / 1000000
           = real_of_int (sint (timestamp m) - sint (time_us s)) / 1000000
       \<and> real_of_int (sint (timestamp m - time_us s)) / 1000000 < 0
       \<and> ProcessMeasurement E m s =
          (let dt = real_of_int (sint (timestamp m - time_us s)) / 1000000;
               s1 = Prediction E dt (s\<lparr> time_us := timestamp m \<rparr>)
           in if use_laser s then
                ([Prediction_call dt, UpdateLidar_call],
                 map_sum id (\<lambda>s2. s2\<lparr> use_laser := False, use_radar := True \<rparr>)
                   (UpdateLidar E m s1))
              else if use_radar s then
                ([Prediction_call dt, UpdateRadar_call],
                 map_sum id (\<lambda>s2. s2\<lparr> use_radar := False, use_laser := True \<rparr>)
                   (UpdateRadar E m s1))
              else ([Prediction_call dt], Inr s1))
       \<and> time_us (Prediction E (real_of_int (sint (timestamp m - time_us s)) / 1000000)
            (s\<lparr> time_us := timestamp m \<rparr>)) = timestamp m"
proof -
  have ms: "map_sum id f r = (case r of Inl e \<Rightarrow> Inl e | Inr a \<Rightarrow> Inr (f a))"
    for f :: "UKF \<Rightarrow> UKF" and r :: "error + UKF"
    by (cases r) simp_all
  have diff: "sint (timestamp m - time_us s) = sint (timestamp m) - sint (time_us s)"
    using assms(2,3) by (simp add: sint_word_ariths signed_take_bit_int_eq_self)
  have "sint (timestamp m) - sint (time_us s) < 0" using assms(2) by linarith
  then have "real_of_int (sint (timestamp m - time_us s)) < 0"
    by (simp only: diff of_int_less_0_iff)
  then have neg: "real_of_int (sint (timestamp m - time_us s)) / 1000000 < 0"
    by (rule divide_neg_pos) simp
  have eq: "real_of_int (sint (timestamp m - time_us s)) / 1000000
      = real_of_int (sint (timestamp m) - sint (time_us s)) / 1000000"
    by (simp only: diff)
  have run: "ProcessMeasurement E m s =
      (let dt = real_of_int (sint (timestamp m - time_us s)) / 1000000;
           s1 = Prediction E dt (s\<lparr> time_us := timestamp m \<rparr>)
       in if use_laser s then
            ([Prediction_call dt, UpdateLidar_call],
             map_sum id (\<lambda>s2. s2\<lparr> use_laser := False, use_radar := True \<rparr>)
               (UpdateLidar E m s1))
          else if use_radar s then
            ([Prediction_call dt, UpdateRadar_call],
             map_sum id (\<lambda>s2. s2\<lparr> use_radar := False, use_laser := True \<rparr>)
               (UpdateRadar E m s1))
          else ([Prediction_call dt], Inr s1))"
    using assms(1) by (simp add: ProcessMeasurement_initialized Let_def ms)
  have clock: "time_us (Prediction E (real_of_int (sint (timestamp m - time_us s)) / 1000000)
      (s\<lparr> time_us := timestamp m \<rparr>)) = timestamp m"
    by (simp add: Prediction_frame)
  show ?thesis using eq neg run clock by (intro conjI)
qed

theorem earlier_timestamp_is_predicted_witness:
  "is_initialized bootstrapped
   \<and> sint (timestamp \<lparr> timestamp = 0, sensor_type = RADAR, raw_measurements = [1, 0, 0] \<rparr>)
       < sint (time_us bootstrapped)
   \<and> - (2 ^ 63)
       \<le> sint (timestamp \<lparr> timestamp = 0, sensor_type = RADAR, raw_measurements = [1, 0, 0] \<rparr>)
          - sint (time_us bootstrapped)
   \<and> ProcessMeasurement eigen_stub
        \<lparr> timestamp = 0, sensor_type = RADAR, raw_measurements = [1, 0, 0] \<rparr> bootstrapped
      = ([Prediction_call (- 1), UpdateRadar_call],
         map_sum id (\<lambda>s2. s2\<lparr> use_radar := False, use_laser := True \<rparr>)
           (UpdateRadar eigen_stub
              \<lparr> timestamp = 0, sensor_type = RADAR, raw_measurements = [1, 0, 0] \<rparr>
              (Prediction eigen_stub (- 1) (bootstrapped\<lparr> time_us := 0 \<rparr>))))"
  using earlier_timestamp_is_predicted [where E = eigen_stub and s = bootstrapped
      and m = "\<lparr> timestamp = 0, sensor_type = RADAR, raw_measurements = [1, 0, 0] \<rparr>"]
  by (simp add: bootstrapped_fields Let_def)

text \<open>
  When the difference does not fit, the subtraction overflows: with the clock at the
  largest \<^verbatim>\<open>long long\<close> and the timestamp \<open>-2\<close>, the wrapped difference is positive
  and \<^verbatim>\<open>Prediction\<close> is called with a positive \<open>dt\<close>.
\<close>

lemma earlier_timestamp_overflow:
  assumes "is_initialized s" and "time_us s = 9223372036854775807" and "timestamp m = - 2"
  shows "sint (timestamp m) < sint (time_us s)"
    and "sint (timestamp m - time_us s) = 9223372036854775807"
    and "hd (fst (ProcessMeasurement E m s)) = Prediction_call (9223372036854775807 / 1000000)"
proof -
  show "sint (timestamp m) < sint (time_us s)" by (simp add: assms)
  show d: "sint (timestamp m - time_us s) = 9223372036854775807" by (simp add: assms)
  have "hd (fst (ProcessMeasurement E m s))
      = Prediction_call (real_of_int (sint (timestamp m - time_us s)) / 1000000)"
    using assms(1) by (simp add: ProcessMeasurement_initialized Let_def)
  then show "hd (fst (ProcessMeasurement E m s))
      = Prediction_call (9223372036854775807 / 1000000)"
    by (simp only: d) simp
qed




section \<open>The weights\<close>

lemma foldl_update_range:
  "length (foldl (\<lambda>w i. w[i := c]) w [a..<b]) = length w
   \<and> (\<forall>j<length w. foldl (\<lambda>w i. w[i := c]) w [a..<b] ! j
          = (if a \<le> j \<and> j < b then c else w ! j))"
proof (induction b)
  case 0
  show ?case by simp
next
  case (Suc b)
  show ?case
  proof (cases "a \<le> b")
    case True
    then show ?thesis using Suc by (auto simp: nth_list_update less_Suc_eq)
  next
    case False
    then show ?thesis by auto
  qed
qed

lemma length_predicted_weights: "length (predicted_weights s) = length (weights s)"
  by (simp add: predicted_weights_def Let_def foldl_update_range)

lemma predicted_weights_nth:
  assumes "j < length (weights s)" and "j < sigma_count s"
  shows "predicted_weights s ! j =
    (if j = 0 then real_of_int (3 - n_aug s) / (real_of_int (3 - n_aug s) + real_of_int (n_aug s))
     else 1 / (2 * (real_of_int (3 - n_aug s) + real_of_int (n_aug s))))"
  using assms by (auto simp: predicted_weights_def Let_def foldl_update_range)

lemma weights_Prediction: "weights (Prediction E dt s) = predicted_weights s"
  by (simp add: Prediction_def Let_def)

lemma sum_list_predicted_weights:
  assumes "length (weights s) = sigma_count s" and "0 \<le> n_aug s"
  shows "sum_list (predicted_weights s) = 1"
proof -
  let ?n = "nat (n_aug s)"
  let ?w = "predicted_weights s"
  have len: "length ?w = Suc (2 * ?n)"
    using assms by (simp add: length_predicted_weights sigma_count_def nat_add_distrib nat_mult_distrib)
  have sc: "sigma_count s = Suc (2 * ?n)"
    using assms by (simp add: sigma_count_def nat_add_distrib nat_mult_distrib)
  have three: "real_of_int (3 - n_aug s) + real_of_int (n_aug s) = 3" by simp
  have "sum_list ?w = (\<Sum>j = 0..<Suc (2 * ?n). ?w ! j)"
    using len by (simp add: sum_list_sum_nth)
  also have "\<dots> = ?w ! 0 + (\<Sum>j = Suc 0..<Suc (2 * ?n). ?w ! j)"
    by (simp add: sum.atLeast_Suc_lessThan)
  also have "(\<Sum>j = Suc 0..<Suc (2 * ?n). ?w ! j) = (\<Sum>j = Suc 0..<Suc (2 * ?n). 1 / 6)"
    by (rule sum.cong) (use assms sc three in \<open>simp_all add: predicted_weights_nth\<close>)
  also have "?w ! 0 = real_of_int (3 - n_aug s) / 3"
    using assms sc three by (simp add: predicted_weights_nth)
  finally have "sum_list ?w = real_of_int (3 - n_aug s) / 3 + real (2 * ?n) / 6"
    by simp
  also have "real (2 * ?n) = 2 * real_of_int (n_aug s)" using assms by simp
  finally show ?thesis by (simp add: field_simps)
qed

text \<open>
  Claim C5. After a call of \<^verbatim>\<open>Prediction\<close> on a filter whose weight vector has the
  \<open>2 n_aug + 1\<close> coefficients the constructor allocates, for any \<open>n_aug \<ge> 0\<close>:
  \<^verbatim>\<open>lambda_\<close> is \<open>3 - n_aug\<close>, the weight vector has length \<open>2 n_aug + 1\<close>, its first
  coefficient is \<open>lambda / (lambda + n_aug)\<close>, every other coefficient is
  \<open>1 / (2 (lambda + n_aug))\<close>, and the weights sum to \<open>1\<close> (exactly, over the reals).
  Every state of a run has a weight vector of that length (\<open>reachable_allocated\<close>).
\<close>

theorem Prediction_weights:
  assumes "length (weights s) = sigma_count s" and "0 \<le> n_aug s"
  shows "lambda (Prediction E dt s) = real_of_int (3 - n_aug s)
       \<and> length (weights (Prediction E dt s)) = nat (2 * n_aug s + 1)
       \<and> weights (Prediction E dt s) ! 0
           = lambda (Prediction E dt s) / (lambda (Prediction E dt s) + real_of_int (n_aug s))
       \<and> (\<forall>i. 1 \<le> i \<and> i < nat (2 * n_aug s + 1) \<longrightarrow>
             weights (Prediction E dt s) ! i
               = 1 / (2 * (lambda (Prediction E dt s) + real_of_int (n_aug s))))
       \<and> sum_list (weights (Prediction E dt s)) = 1"
proof -
  have lam: "lambda (Prediction E dt s) = real_of_int (3 - n_aug s)"
    by (simp add: Prediction_def Let_def)
  have pos: "0 < sigma_count s" using assms(2) by (simp add: sigma_count_def)
  show ?thesis
    unfolding weights_Prediction lam
    using assms pos sum_list_predicted_weights [OF assms]
    by (auto simp: length_predicted_weights predicted_weights_nth sigma_count_def)
qed

theorem Prediction_weights_witness:
  "length (weights UKF_ctor) = sigma_count UKF_ctor \<and> 0 \<le> n_aug UKF_ctor
   \<and> lambda (Prediction eigen_stub 1 UKF_ctor) = - 4
   \<and> length (weights (Prediction eigen_stub 1 UKF_ctor)) = 15
   \<and> weights (Prediction eigen_stub 1 UKF_ctor) ! 0 = - 4 / 3
   \<and> weights (Prediction eigen_stub 1 UKF_ctor) ! 3 = 1 / 6
   \<and> sum_list (weights (Prediction eigen_stub 1 UKF_ctor)) = 1"
proof -
  have h: "length (weights UKF_ctor) = sigma_count UKF_ctor" "0 \<le> n_aug UKF_ctor"
    by (simp_all add: UKF_ctor_def sigma_count_def zero_vec_def)
  have n: "n_aug UKF_ctor = 7" by (simp add: UKF_ctor_def)
  from Prediction_weights [OF h, of eigen_stub 1]
  have "lambda (Prediction eigen_stub 1 UKF_ctor) = - 4"
    and "length (weights (Prediction eigen_stub 1 UKF_ctor)) = 15"
    and "weights (Prediction eigen_stub 1 UKF_ctor) ! 0 = - 4 / 3"
    and "1 \<le> (3::nat) \<and> 3 < nat (2 * n_aug UKF_ctor + 1) \<longrightarrow>
           weights (Prediction eigen_stub 1 UKF_ctor) ! 3 = 1 / 6"
    and "sum_list (weights (Prediction eigen_stub 1 UKF_ctor)) = 1"
    by (simp_all add: n)
  then show ?thesis using h by (simp add: n)
qed

section \<open>The angle reduction: the claim\<close>

lemma normalize_angle_periodic: "normalize_angle (a + 2 * pi) = normalize_angle a"
  by (simp add: normalize_angle_def)

text \<open>
  Claim C8. The angle reduction \<open>a \<mapsto> atan2 (sin a) (cos a)\<close> returns a value in
  \<open>(-\<pi>, \<pi>]\<close> for every angle, returns every angle of \<open>(-\<pi>, \<pi>]\<close> unchanged, hence is
  idempotent, and maps \<open>\<pi> + e\<close> to \<open>-\<pi> + e\<close> for \<open>0 < e \<le> 2\<pi>\<close> (over the reals the
  value is exactly \<open>-\<pi> + e\<close>).
\<close>

theorem normalize_angle_range_idempotent:
  "(- pi < normalize_angle a \<and> normalize_angle a \<le> pi)
   \<and> (- pi < a \<and> a \<le> pi \<longrightarrow> normalize_angle a = a)
   \<and> normalize_angle (normalize_angle a) = normalize_angle a
   \<and> (0 < e \<and> e \<le> 2 * pi \<longrightarrow> normalize_angle (pi + e) = - pi + e)"
proof -
  have r: "- pi < normalize_angle a \<and> normalize_angle a \<le> pi"
    unfolding normalize_angle_def by (rule atan2_range)
  have idem: "normalize_angle (normalize_angle a) = normalize_angle a"
    using r atan2_sin_cos [of "normalize_angle a"] by (simp add: normalize_angle_def)
  have wrap: "normalize_angle (pi + e) = - pi + e" if "0 < e" "e \<le> 2 * pi"
  proof -
    have "normalize_angle (pi + e) = normalize_angle ((- pi + e) + 2 * pi)" by simp
    also have "\<dots> = normalize_angle (- pi + e)" by (rule normalize_angle_periodic)
    also have "\<dots> = - pi + e"
      unfolding normalize_angle_def using that by (intro atan2_sin_cos) auto
    finally show ?thesis .
  qed
  show ?thesis
    using r idem wrap atan2_sin_cos [of a] by (simp add: normalize_angle_def)
qed

theorem normalize_angle_range_idempotent_witness:
  "- pi < (1::real) \<and> (1::real) \<le> pi \<and> normalize_angle 1 = 1
   \<and> normalize_angle (normalize_angle 1) = normalize_angle 1
   \<and> (0::real) < 1 / 10 \<and> (1::real) / 10 \<le> 2 * pi
   \<and> normalize_angle (pi + 1 / 10) = - pi + 1 / 10"
proof -
  have b: "- pi < (1::real)" "(1::real) \<le> pi" "(1::real) / 10 \<le> 2 * pi"
    using pi_ge_two by simp_all
  show ?thesis
    using normalize_angle_range_idempotent [of 1 "1 / 10"] b by simp
qed

section \<open>Coefficients of matrices\<close>

lemma is_mat_row: "is_mat r c M \<Longrightarrow> i < r \<Longrightarrow> length (M ! i) = c"
  by (simp add: is_mat_def list_all_length)

lemma is_mat_length: "is_mat r c M \<Longrightarrow> length M = r"
  by (simp add: is_mat_def)

lemma is_mat_set_coeff: "is_mat r c M \<Longrightarrow> is_mat r c (set_coeff M i j v)"
  by (cases "i < length M")
    (auto simp: is_mat_def set_coeff_def list_all_length nth_list_update)

lemma coeff_set_coeff:
  "is_mat r c M \<Longrightarrow> i < r \<Longrightarrow> j < c \<Longrightarrow>
     coeff (set_coeff M i j v) i' j' = (if i' = i \<and> j' = j then v else coeff M i' j')"
  by (auto simp: is_mat_def set_coeff_def coeff_def list_all_length nth_list_update)

lemma col_nth: "r < length M \<Longrightarrow> col M j ! r = coeff M r j"
  by (simp add: col_def coeff_def)

lemma mat_eqI:
  assumes "is_mat r c A" and "is_mat r c B"
    and "\<And>i j. i < r \<Longrightarrow> j < c \<Longrightarrow> coeff A i j = coeff B i j"
  shows "A = B"
proof (rule nth_equalityI)
  show "length A = length B" using assms(1,2) by (simp add: is_mat_def)
next
  fix i assume "i < length A"
  then have i: "i < r" using assms(1) by (simp add: is_mat_def)
  show "A ! i = B ! i"
  proof (rule nth_equalityI)
    show "length (A ! i) = length (B ! i)"
      using is_mat_row [OF assms(1) i] is_mat_row [OF assms(2) i] by simp
  next
    fix j assume "j < length (A ! i)"
    then have "j < c" using is_mat_row [OF assms(1) i] by simp
    then show "A ! i ! j = B ! i ! j" using assms(3) [OF i] by (simp add: coeff_def)
  qed
qed

lemma map_nth_upt: "map (\<lambda>r. f (xs ! r)) [0..<length xs] = map f xs"
  by (rule nth_equalityI) auto

section \<open>The sigma points of the prediction\<close>

lemma write_sigma_point_is_mat: "is_mat r c X \<Longrightarrow> is_mat r c (write_sigma_point X i p)"
  by (simp add: write_sigma_point_def is_mat_set_coeff)

lemma coeff_write_sigma_point:
  assumes "is_mat 5 n X" and "i < n" and "r < 5"
  shows "coeff (write_sigma_point X i p) r j = (if j = i then p ! r else coeff X r j)"
proof -
  have r: "r = 0 \<or> r = 1 \<or> r = 2 \<or> r = 3 \<or> r = 4" using assms(3) by arith
  note m = is_mat_set_coeff [OF assms(1)]
  show ?thesis
    unfolding write_sigma_point_def
    using r assms(2)
    by (auto simp: coeff_set_coeff [where r = 5 and c = n] is_mat_set_coeff assms(1))
qed

lemma sigma_loop:
  assumes "is_mat 5 n X" and "k \<le> n"
  shows "is_mat 5 n (foldl (\<lambda>X i. write_sigma_point X i (f i)) X [0..<k])
       \<and> (\<forall>r<5. \<forall>j. coeff (foldl (\<lambda>X i. write_sigma_point X i (f i)) X [0..<k]) r j
              = (if j < k then f j ! r else coeff X r j))"
  using assms(2)
proof (induction k)
  case 0
  show ?case using assms(1) by simp
next
  case (Suc k)
  then have ih: "is_mat 5 n (foldl (\<lambda>X i. write_sigma_point X i (f i)) X [0..<k])"
    "\<And>r j. r < 5 \<Longrightarrow> coeff (foldl (\<lambda>X i. write_sigma_point X i (f i)) X [0..<k]) r j
              = (if j < k then f j ! r else coeff X r j)"
    and k: "k < n"
    by auto
  show ?case
    using k by (auto simp: write_sigma_point_is_mat ih coeff_write_sigma_point [OF ih(1)])
qed

lemma Xsig_pred_Prediction:
  "Xsig_pred (Prediction E dt s) =
     foldl (\<lambda>X i. write_sigma_point X i (predict_sigma_point dt (col (Xsig_aug E s) i)))
       (Xsig_pred s) [0..<sigma_count s]"
  by (simp add: Prediction_def Let_def)

lemma length_predict_sigma_point: "length (predict_sigma_point dt c) = 5"
  by (simp add: predict_sigma_point_def Let_def)

lemma Prediction_sigma_column:
  assumes "is_mat 5 (sigma_count s) (Xsig_pred s)" and "i < sigma_count s"
  shows "col (Xsig_pred (Prediction E dt s)) i = predict_sigma_point dt (col (Xsig_aug E s) i)"
proof (rule nth_equalityI)
  note loop = sigma_loop [OF assms(1) order_refl,
      of "\<lambda>i. predict_sigma_point dt (col (Xsig_aug E s) i)"]
  have len: "length (Xsig_pred (Prediction E dt s)) = 5"
    using loop by (simp add: Xsig_pred_Prediction is_mat_def)
  show "length (col (Xsig_pred (Prediction E dt s)) i)
      = length (predict_sigma_point dt (col (Xsig_aug E s) i))"
    using len by (simp add: length_predict_sigma_point)
  fix r assume "r < length (col (Xsig_pred (Prediction E dt s)) i)"
  then have r: "r < 5" using len by simp
  then show "col (Xsig_pred (Prediction E dt s)) i ! r
      = predict_sigma_point dt (col (Xsig_aug E s) i) ! r"
    using loop assms(2) len by (simp add: col_nth Xsig_pred_Prediction)
qed


lemma length_set_col [simp]: "length (set_col M c v) = length M"
  by (simp add: set_col_def)

lemma col_set_col_other: "c \<noteq> c' \<Longrightarrow> col (set_col M c v) c' = col M c'"
proof -
  assume "c \<noteq> c'"
  then have "col (set_col M c v) c' = map (\<lambda>r. (\<lambda>row. row ! c') (M ! r)) [0..<length M]"
    by (simp add: col_def set_col_def)
  also have "\<dots> = col M c'" unfolding col_def by (rule map_nth_upt)
  finally show ?thesis .
qed

lemma col_set_col_same:
  assumes "length v = length M" and "list_all (\<lambda>row. c < length row) M"
  shows "col (set_col M c v) c = v"
proof (rule nth_equalityI)
  show "length (col (set_col M c v) c) = length v" using assms(1) by simp
  fix r assume "r < length (col (set_col M c v) c)"
  then have "r < length M" by simp
  then show "col (set_col M c v) c ! r = v ! r"
    using assms(2) by (simp add: col_def set_col_def list_all_length)
qed

lemma Xsig_aug_mean_column:
  assumes "n_x s = 5" and "n_aug s = 7" and "length (x_state s) = 5"
  shows "col (Xsig_aug E s) 0 = x_state s @ [0, 0]"
proof -
  let ?X_aug = "((set_head (zero_vec (nat (n_aug s))) (nat (n_x s)) (x_state s))
      [nat (n_x s) := 0])[nat (n_x s + 1) := 0]"
  have xa: "?X_aug = x_state s @ [0, 0]"
    using assms by (simp add: set_head_def zero_vec_def list_update_append numeral_2_eq_2)
  have start: "col (set_col (zero_mat (nat (n_aug s)) (sigma_count s)) 0 (x_state s @ [0, 0])) 0
      = x_state s @ [0, 0]"
    by (rule col_set_col_same)
      (use assms in \<open>simp_all add: zero_mat_def sigma_count_def list_all_length\<close>)
  show ?thesis
    unfolding Xsig_aug_def Let_def xa
    by (rule foldl_invariant [where Q = "\<lambda>Xs. col Xs 0 = x_state s @ [0, 0]"])
      (simp_all add: start col_set_col_other)
qed

text \<open>
  Claim C6. In a call of \<^verbatim>\<open>Prediction\<close> over the elapsed time \<open>dt\<close>, on a filter
  whose matrix \<^verbatim>\<open>Xsig_pred_\<close> has the allocated size (as in every state of a run,
  \<open>reachable_allocated\<close>), let \<open>c\<close> be column \<open>i\<close> of the
  augmented sigma point matrix and \<open>p\<close> column \<open>i\<close> of \<^verbatim>\<open>Xsig_pred_\<close> after the
  call. The positions of \<open>p\<close> are those of \<open>c\<close> plus the position steps plus the noise
  terms. If \<open>\<bar>yaw_rate\<bar> > 0.001\<close> the steps are the arc
  \<open>v / yawdot (sin (yaw + yawdot dt) - sin yaw)\<close> and
  \<open>v / yawdot (cos yaw - cos (yaw + yawdot dt))\<close>, otherwise the straight line
  \<open>v cos yaw dt\<close> and \<open>v sin yaw dt\<close>. For \<open>yaw_rate = 0\<close>, \<open>v = 10\<close>, \<open>yaw = 0\<close>,
  \<open>dt = 1\<close> and zero process noise, \<open>px\<close> grows by exactly \<open>10\<close>.
\<close>

theorem Prediction_sigma_point_step:
  assumes "is_mat 5 (sigma_count s) (Xsig_pred s)" and "i < sigma_count s"
    and "c = col (Xsig_aug E s) i" and "p = col (Xsig_pred (Prediction E dt s)) i"
  shows "p ! 0 = c ! 0 + px_step dt c + 0.5 * dt * dt * cos (c ! 3) * c ! 5
       \<and> p ! 1 = c ! 1 + py_step dt c + 0.5 * dt * dt * sin (c ! 3) * c ! 5
       \<and> (\<bar>c ! 4\<bar> > 0.001 \<longrightarrow>
            px_step dt c = c ! 2 / c ! 4 * (sin (c ! 3 + c ! 4 * dt) - sin (c ! 3))
          \<and> py_step dt c = c ! 2 / c ! 4 * (cos (c ! 3) - cos (c ! 3 + c ! 4 * dt)))
       \<and> (\<not> \<bar>c ! 4\<bar> > 0.001 \<longrightarrow>
            px_step dt c = c ! 2 * cos (c ! 3) * dt
          \<and> py_step dt c = c ! 2 * sin (c ! 3) * dt)
       \<and> (c ! 4 = 0 \<and> c ! 2 = 10 \<and> c ! 3 = 0 \<and> dt = 1 \<and> c ! 5 = 0 \<and> c ! 6 = 0 \<longrightarrow>
            p ! 0 = c ! 0 + 10)"
proof -
  have p: "p = predict_sigma_point dt c"
    using Prediction_sigma_column [OF assms(1,2)] assms(3,4) by simp
  have p0: "p ! 0 = c ! 0 + px_step dt c + 0.5 * dt * dt * cos (c ! 3) * c ! 5"
    and p1: "p ! 1 = c ! 1 + py_step dt c + 0.5 * dt * dt * sin (c ! 3) * c ! 5"
    by (simp_all add: p predict_sigma_point_def Let_def)
  have arc: "px_step dt c = c ! 2 / c ! 4 * (sin (c ! 3 + c ! 4 * dt) - sin (c ! 3))"
    "py_step dt c = c ! 2 / c ! 4 * (cos (c ! 3) - cos (c ! 3 + c ! 4 * dt))"
    if "\<bar>c ! 4\<bar> > 0.001"
    using that by (simp_all add: px_step_def py_step_def Let_def)
  have line: "px_step dt c = c ! 2 * cos (c ! 3) * dt" "py_step dt c = c ! 2 * sin (c ! 3) * dt"
    if "\<not> \<bar>c ! 4\<bar> > 0.001"
    using that by (simp_all add: px_step_def py_step_def Let_def)
  have ten: "p ! 0 = c ! 0 + 10"
    if "c ! 4 = 0" "c ! 2 = 10" "c ! 3 = 0" "dt = 1" "c ! 5 = 0"
    using that by (simp add: p0 px_step_def Let_def)
  show ?thesis using p0 p1 arc line ten by blast
qed

lemma ctor_is_mat: "is_mat 5 15 (Xsig_pred UKF_ctor)"
  by (simp add: is_mat_def UKF_ctor_def zero_mat_def list_all_length)

theorem Prediction_sigma_point_step_witness:
  "is_mat 5 (sigma_count straight_state) (Xsig_pred straight_state)
   \<and> 0 < sigma_count straight_state
   \<and> col (Xsig_aug eigen_stub straight_state) 0 = [3, 4, 10, 0, 0, 0, 0]
   \<and> col (Xsig_pred (Prediction eigen_stub 1 straight_state)) 0 ! 0 = 13
   \<and> px_step 1 [3, 4, 10, 0, 0, 0, 0] = 10 * cos 0 * 1
   \<and> is_mat 5 (sigma_count turning_state) (Xsig_pred turning_state)
   \<and> col (Xsig_aug eigen_stub turning_state) 0 = [3, 4, 10, 0, 1, 0, 0]
   \<and> px_step 2 [3, 4, 10, 0, 1, 0, 0] = 10 / 1 * (sin (0 + 1 * 2) - sin 0)
   \<and> py_step 2 [3, 4, 10, 0, 1, 0, 0] = 10 / 1 * (cos 0 - cos (0 + 1 * 2))"
proof -
  have n: "sigma_count straight_state = 15" "sigma_count turning_state = 15"
    by (simp_all add: sigma_count_def straight_state_def turning_state_def UKF_ctor_def)
  have m: "is_mat 5 (sigma_count straight_state) (Xsig_pred straight_state)"
    "is_mat 5 (sigma_count turning_state) (Xsig_pred turning_state)"
    using ctor_is_mat by (simp_all add: n) (simp_all add: straight_state_def turning_state_def)
  have i: "0 < sigma_count straight_state" "0 < sigma_count turning_state"
    by (simp_all add: n)
  have c1: "col (Xsig_aug eigen_stub straight_state) 0 = [3, 4, 10, 0, 0, 0, 0]"
    by (subst Xsig_aug_mean_column) (simp_all add: straight_state_def UKF_ctor_def)
  have c2: "col (Xsig_aug eigen_stub turning_state) 0 = [3, 4, 10, 0, 1, 0, 0]"
    by (subst Xsig_aug_mean_column) (simp_all add: turning_state_def UKF_ctor_def)
  note w1 = Prediction_sigma_point_step [OF m(1) i(1) c1 [symmetric] refl, of 1]
  note w2 = Prediction_sigma_point_step [OF m(2) i(2) c2 [symmetric] refl, of 2]
  from w1 have a: "col (Xsig_pred (Prediction eigen_stub 1 straight_state)) 0 ! 0 = 13"
    "px_step 1 [3, 4, 10, 0, 0, 0, 0] = 10 * cos 0 * 1"
    by simp_all
  from w2 have b: "px_step 2 [3, 4, 10, 0, 1, 0, 0] = 10 / 1 * (sin (0 + 1 * 2) - sin 0)"
    "py_step 2 [3, 4, 10, 0, 1, 0, 0] = 10 / 1 * (cos 0 - cos (0 + 1 * 2))"
    by simp_all
  show ?thesis using m i c1 c2 a b by simp
qed

section \<open>The sigma points of the radar update\<close>

lemma col_cong:
  assumes "length A = length B" and "\<And>r. r < length A \<Longrightarrow> coeff A r j = coeff B r j"
  shows "col A j = col B j"
  by (rule nth_equalityI) (use assms in \<open>simp_all add: col_nth\<close>)

lemma radar_sigma_point_is_mat:
  assumes "is_mat 5 n X" and "is_mat 3 n Z"
  shows "is_mat 5 n (fst (radar_sigma_point (X, Z) i))"
    and "is_mat 3 n (snd (radar_sigma_point (X, Z) i))"
  using assms by (simp_all add: radar_sigma_point_def Let_def is_mat_set_coeff)

lemma radar_sigma_point_X:
  assumes "is_mat 5 n X" and "i < n" and "r < 5"
  shows "coeff (fst (radar_sigma_point (X, Z) i)) r j
       = (if j = i then clamp_column (col X i) ! r else coeff X r j)"
proof -
  have len: "length X = 5" using assms(1) by (simp add: is_mat_def)
  have c: "col X i ! q = coeff X q i" if "q < 5" for q
    using len that by (simp add: col_nth)
  have r: "r = 0 \<or> r = 1 \<or> r = 2 \<or> r = 3 \<or> r = 4" using assms(3) by arith
  show ?thesis
    using assms(2) len r
    by (auto simp: radar_sigma_point_def Let_def clamp_column_def c nth_list_update
        coeff_set_coeff [where r = 5 and c = n] is_mat_set_coeff assms(1))
qed

lemma radar_sigma_point_Z:
  assumes "is_mat 5 n X" and "is_mat 3 n Z" and "i < n" and "r < 3"
  shows "coeff (snd (radar_sigma_point (X, Z) i)) r j
       = (if j = i then radar_column (clamp_column (col X i)) ! r else coeff Z r j)"
proof -
  let ?X' = "fst (radar_sigma_point (X, Z) i)"
  have x: "coeff ?X' q i = clamp_column (col X i) ! q" if "q < 5" for q
    using radar_sigma_point_X [OF assms(1,3) that, of Z i] by simp
  have X': "?X' = (if \<bar>coeff X 0 i\<bar> < 0.001 \<and> \<bar>coeff X 1 i\<bar> < 0.001
               then set_coeff (set_coeff X 0 i 0.01) 1 i 0.01 else X)"
    by (simp add: radar_sigma_point_def Let_def)
  define a where "a = sqrt (coeff ?X' 0 i * coeff ?X' 0 i + coeff ?X' 1 i * coeff ?X' 1 i)"
  define b where "b = atan2 (coeff ?X' 1 i) (coeff ?X' 0 i)"
  define u where "u = coeff ?X' 0 i * cos (coeff ?X' 3 i) * coeff ?X' 2 i
      + coeff ?X' 1 i * sin (coeff ?X' 3 i) * coeff ?X' 2 i"
  have z0: "coeff (set_coeff (set_coeff Z 0 i a) 1 i b) 0 i = a"
    using assms(3)
    by (simp add: coeff_set_coeff [where r = 3 and c = n] is_mat_set_coeff assms(2))
  have "snd (radar_sigma_point (X, Z) i)
      = set_coeff (set_coeff (set_coeff Z 0 i a) 1 i b) 2 i
          (u / coeff (set_coeff (set_coeff Z 0 i a) 1 i b) 0 i)"
    unfolding a_def b_def u_def X'
    by (simp add: radar_sigma_point_def Let_def)
  then have Z': "snd (radar_sigma_point (X, Z) i)
      = set_coeff (set_coeff (set_coeff Z 0 i a) 1 i b) 2 i (u / a)"
    by (simp only: z0)
  have r: "r = 0 \<or> r = 1 \<or> r = 2" using assms(4) by arith
  have vals: "radar_column (clamp_column (col X i)) = [a, b, u / a]"
    unfolding radar_column_def u_def a_def b_def by (simp add: x)
  show ?thesis
    unfolding Z' vals
    using r assms(3)
    by (auto simp: coeff_set_coeff [where r = 3 and c = n] is_mat_set_coeff assms(2))
qed

lemma radar_loop:
  assumes "is_mat 5 n X" and "is_mat 3 n Z" and "k \<le> n"
  shows "is_mat 5 n (fst (foldl radar_sigma_point (X, Z) [0..<k]))
       \<and> is_mat 3 n (snd (foldl radar_sigma_point (X, Z) [0..<k]))
       \<and> (\<forall>r<5. \<forall>j. coeff (fst (foldl radar_sigma_point (X, Z) [0..<k])) r j
              = (if j < k then clamp_column (col X j) ! r else coeff X r j))
       \<and> (\<forall>r<3. \<forall>j. coeff (snd (foldl radar_sigma_point (X, Z) [0..<k])) r j
              = (if j < k then radar_column (clamp_column (col X j)) ! r else coeff Z r j))"
  using assms(3)
proof (induction k)
  case 0
  show ?case using assms(1,2) by simp
next
  case (Suc k)
  obtain Xk Zk where XZ: "foldl radar_sigma_point (X, Z) [0..<k] = (Xk, Zk)"
    by (cases "foldl radar_sigma_point (X, Z) [0..<k]")
  from Suc have k: "k < n" and mX: "is_mat 5 n Xk" and mZ: "is_mat 3 n Zk"
    and cX: "\<And>r j. r < 5 \<Longrightarrow> coeff Xk r j = (if j < k then clamp_column (col X j) ! r else coeff X r j)"
    and cZ: "\<And>r j. r < 3 \<Longrightarrow> coeff Zk r j
        = (if j < k then radar_column (clamp_column (col X j)) ! r else coeff Z r j)"
    by (auto simp: XZ)
  have colk: "col Xk k = col X k"
    by (rule col_cong) (use mX assms(1) cX in \<open>simp_all add: is_mat_def\<close>)
  show ?case
    using k
    by (auto simp: XZ radar_sigma_point_is_mat [OF mX mZ]
        radar_sigma_point_X [OF mX] radar_sigma_point_Z [OF mX mZ] colk cX cZ)
qed


lemma is_mat_zero_mat: "is_mat r c (zero_mat r c)"
  by (simp add: is_mat_def zero_mat_def list_all_length)

lemma length_clamp_column [simp]: "length (clamp_column c) = length c"
  by (simp add: clamp_column_def)

lemma clamp_column_idem: "clamp_column (clamp_column c) = clamp_column c"
  by (cases "length c") (auto simp: clamp_column_def nth_list_update)

lemma clamp_column_positive:
  assumes "2 \<le> length c"
  shows "0 < clamp_column c ! 0 * clamp_column c ! 0 + clamp_column c ! 1 * clamp_column c ! 1"
proof (cases "\<bar>c ! 0\<bar> < 0.001 \<and> \<bar>c ! 1\<bar> < 0.001")
  case True
  have "0 < length c" "1 < length c" using assms by auto
  then show ?thesis using True by (simp add: clamp_column_def nth_list_update)
next
  case False
  then have nz: "c ! 0 \<noteq> 0 \<or> c ! 1 \<noteq> 0" by auto
  have same: "clamp_column c = c" using False by (auto simp: clamp_column_def)
  show ?thesis unfolding same using nz by (simp only: sum_squares_gt_zero_iff)
qed

lemma radar_sigma_points_coeff:
  assumes "is_mat 5 (sigma_count s) (Xsig_pred s)"
  shows "is_mat 5 (sigma_count s) (fst (radar_sigma_points s))"
    and "is_mat 3 (sigma_count s) (snd (radar_sigma_points s))"
    and "r < 5 \<Longrightarrow> j < sigma_count s \<Longrightarrow>
      coeff (fst (radar_sigma_points s)) r j = clamp_column (col (Xsig_pred s) j) ! r"
    and "q < 3 \<Longrightarrow> j < sigma_count s \<Longrightarrow>
      coeff (snd (radar_sigma_points s)) q j
        = radar_column (clamp_column (col (Xsig_pred s) j)) ! q"
  using radar_loop [OF assms is_mat_zero_mat order_refl]
  by (simp_all add: radar_sigma_points_def)

lemma radar_sigma_points_col:
  assumes "is_mat 5 (sigma_count s) (Xsig_pred s)" and "j < sigma_count s"
  shows "col (fst (radar_sigma_points s)) j = clamp_column (col (Xsig_pred s) j)"
proof (rule nth_equalityI)
  have l: "length (fst (radar_sigma_points s)) = 5" "length (Xsig_pred s) = 5"
    using radar_sigma_points_coeff(1) [OF assms(1)] assms(1) by (simp_all add: is_mat_def)
  show "length (col (fst (radar_sigma_points s)) j) = length (clamp_column (col (Xsig_pred s) j))"
    by (simp add: l)
  fix r assume "r < length (col (fst (radar_sigma_points s)) j)"
  then have "r < 5" by (simp add: l)
  then show "col (fst (radar_sigma_points s)) j ! r = clamp_column (col (Xsig_pred s) j) ! r"
    using radar_sigma_points_coeff(3) [OF assms(1) _ assms(2)] l by (simp add: col_nth)
qed

lemma radar_sigma_points_clamped:
  assumes "is_mat 5 (sigma_count s) (Xsig_pred s)"
  shows "radar_sigma_points (s\<lparr> Xsig_pred := fst (radar_sigma_points s) \<rparr>)
       = radar_sigma_points s"
proof -
  let ?s' = "s\<lparr> Xsig_pred := fst (radar_sigma_points s) \<rparr>"
  have n: "sigma_count ?s' = sigma_count s" by (simp add: sigma_count_def)
  have m': "is_mat 5 (sigma_count ?s') (Xsig_pred ?s')"
    using radar_sigma_points_coeff(1) [OF assms] by (simp add: n)
  note c' = radar_sigma_points_coeff [OF m', unfolded n]
  note c = radar_sigma_points_coeff [OF assms]
  have cols: "col (fst (radar_sigma_points s)) j = clamp_column (col (Xsig_pred s) j)"
    if "j < sigma_count s" for j
    using radar_sigma_points_col [OF assms that] by simp
  have "fst (radar_sigma_points ?s') = fst (radar_sigma_points s)"
    by (rule mat_eqI [OF c'(1) c(1)]) (simp add: c'(3) c(3) cols clamp_column_idem)
  moreover have "snd (radar_sigma_points ?s') = snd (radar_sigma_points s)"
    by (rule mat_eqI [OF c'(2) c(2)]) (simp add: c'(4) c(4) cols clamp_column_idem)
  ultimately show ?thesis by (rule prod_eqI)
qed

lemma UpdateRadar_clamped:
  assumes "is_mat 5 (sigma_count s) (Xsig_pred s)"
  shows "UpdateRadar E m (s\<lparr> Xsig_pred := fst (radar_sigma_points s) \<rparr>) = UpdateRadar E m s"
proof -
  let ?s' = "s\<lparr> Xsig_pred := fst (radar_sigma_points s) \<rparr>"
  note eq = radar_sigma_points_clamped [OF assms]
  have z: "z_pred_radar ?s' = z_pred_radar s"
    by (simp add: z_pred_radar_def eq sigma_count_def)
  have st: "ST_radar ?s' = ST_radar s"
    by (simp add: ST_radar_def eq z sigma_count_def)
  have S: "S_radar ?s' = S_radar s"
    by (simp add: S_radar_def st)
  show ?thesis
    by (simp add: UpdateRadar_def Let_def eq z st S)
qed


text \<open>
  Claim C7. In the measurement transform of \<^verbatim>\<open>UpdateRadar\<close>, on a filter whose matrix
  \<^verbatim>\<open>Xsig_pred_\<close> has the allocated size (as in every state of a run,
  \<open>reachable_allocated\<close>), for every sigma point \<open>i\<close>: if \<open>\<bar>px\<bar>\<close> and
  \<open>\<bar>py\<bar>\<close> are both below \<open>0.001\<close> (the source compares with \<open><\<close>), both are set to
  \<open>0.01\<close> before the transform; the range is the square root of the sum of the squares
  of the (clamped) \<open>px\<close> and \<open>py\<close>; the range rate is divided by that range, which is
  always positive, so the division is never by zero; and a sigma point with
  \<open>px = py = 0\<close> gets the range \<open>sqrt (0.01\<^sup>2 + 0.01\<^sup>2)\<close>.
\<close>

theorem radar_range_clamp:
  assumes "is_mat 5 (sigma_count s) (Xsig_pred s)" and "i < sigma_count s"
    and "X = Xsig_pred s" and "X' = fst (radar_sigma_points s)"
    and "Z = snd (radar_sigma_points s)"
  shows "(\<bar>coeff X 0 i\<bar> < 0.001 \<and> \<bar>coeff X 1 i\<bar> < 0.001 \<longrightarrow>
            coeff X' 0 i = 0.01 \<and> coeff X' 1 i = 0.01)
       \<and> coeff Z 0 i = sqrt (coeff X' 0 i * coeff X' 0 i + coeff X' 1 i * coeff X' 1 i)
       \<and> coeff Z 2 i = (coeff X' 0 i * cos (coeff X' 3 i) * coeff X' 2 i
                          + coeff X' 1 i * sin (coeff X' 3 i) * coeff X' 2 i) / coeff Z 0 i
       \<and> 0 < coeff Z 0 i
       \<and> (coeff X 0 i = 0 \<and> coeff X 1 i = 0 \<longrightarrow>
            coeff Z 0 i = sqrt (0.01 * 0.01 + 0.01 * 0.01))"
proof -
  let ?c = "clamp_column (col X i)"
  have len: "length X = 5" using assms(1,3) by (simp add: is_mat_def)
  have cX: "col X i ! r = coeff X r i" if "r < 5" for r
    using that len by (simp add: col_nth)
  have x': "coeff X' r i = ?c ! r" if "r < 5" for r
    using radar_sigma_points_coeff(3) [OF assms(1) that assms(2)] assms(3,4) by simp
  have z: "coeff Z q i = radar_column ?c ! q" if "q < 3" for q
    using radar_sigma_points_coeff(4) [OF assms(1) that assms(2)] assms(3,5) by simp
  have clamp: "coeff X' 0 i = 0.01 \<and> coeff X' 1 i = 0.01"
    if "\<bar>coeff X 0 i\<bar> < 0.001 \<and> \<bar>coeff X 1 i\<bar> < 0.001"
    using that len by (simp add: x' clamp_column_def cX nth_list_update)
  have z0: "coeff Z 0 i = sqrt (coeff X' 0 i * coeff X' 0 i + coeff X' 1 i * coeff X' 1 i)"
    by (simp add: z x' radar_column_def)
  have z2: "coeff Z 2 i = (coeff X' 0 i * cos (coeff X' 3 i) * coeff X' 2 i
      + coeff X' 1 i * sin (coeff X' 3 i) * coeff X' 2 i) / coeff Z 0 i"
    by (simp add: z x' radar_column_def)
  have "0 < ?c ! 0 * ?c ! 0 + ?c ! 1 * ?c ! 1"
    by (rule clamp_column_positive) (simp add: len)
  then have pos: "0 < coeff Z 0 i"
    unfolding z0 by (simp only: x' real_sqrt_gt_zero)
  have zero: "coeff Z 0 i = sqrt (0.01 * 0.01 + 0.01 * 0.01)"
    if "coeff X 0 i = 0 \<and> coeff X 1 i = 0"
  proof -
    have "\<bar>coeff X 0 i\<bar> < 0.001 \<and> \<bar>coeff X 1 i\<bar> < 0.001" using that by simp
    from clamp [OF this] have e: "coeff X' 0 i = 0.01" "coeff X' 1 i = 0.01" by blast+
    show ?thesis unfolding z0 e by (rule refl)
  qed
  show ?thesis using clamp z0 z2 pos zero by blast
qed

theorem radar_range_clamp_witness:
  "is_mat 5 (sigma_count UKF_ctor) (Xsig_pred UKF_ctor) \<and> 0 < sigma_count UKF_ctor
   \<and> coeff (Xsig_pred UKF_ctor) 0 0 = 0 \<and> coeff (Xsig_pred UKF_ctor) 1 0 = 0
   \<and> coeff (fst (radar_sigma_points UKF_ctor)) 0 0 = 0.01
   \<and> coeff (fst (radar_sigma_points UKF_ctor)) 1 0 = 0.01
   \<and> coeff (snd (radar_sigma_points UKF_ctor)) 0 0 = sqrt (0.01 * 0.01 + 0.01 * 0.01)
   \<and> 0 < coeff (snd (radar_sigma_points UKF_ctor)) 0 0"
proof -
  have n: "sigma_count UKF_ctor = 15" by (simp add: sigma_count_def UKF_ctor_def)
  have m: "is_mat 5 (sigma_count UKF_ctor) (Xsig_pred UKF_ctor)"
    using ctor_is_mat by (simp add: n)
  have i: "0 < sigma_count UKF_ctor" by (simp add: n)
  have x: "coeff (Xsig_pred UKF_ctor) 0 0 = 0" "coeff (Xsig_pred UKF_ctor) 1 0 = 0"
    by (simp_all add: UKF_ctor_def zero_mat_def coeff_def)
  have h: "\<bar>coeff (Xsig_pred UKF_ctor) 0 0\<bar> < 0.001 \<and> \<bar>coeff (Xsig_pred UKF_ctor) 1 0\<bar> < 0.001"
    using x by simp
  note t = radar_range_clamp [OF m i refl refl refl]
  from t h have a: "coeff (fst (radar_sigma_points UKF_ctor)) 0 0 = 0.01"
    "coeff (fst (radar_sigma_points UKF_ctor)) 1 0 = 0.01"
    by blast+
  from t x have z: "coeff (snd (radar_sigma_points UKF_ctor)) 0 0 = sqrt (0.01 * 0.01 + 0.01 * 0.01)"
    by blast
  from t have p: "0 < coeff (snd (radar_sigma_points UKF_ctor)) 0 0"
    by blast
  show ?thesis using m i x a z p by blast
qed

text \<open>
  Claim C10. The clamp of \<^verbatim>\<open>UpdateRadar\<close> is stored: when the call returns (on a
  filter whose matrix \<^verbatim>\<open>Xsig_pred_\<close> has the allocated size), the member
  \<^verbatim>\<open>Xsig_pred_\<close> is the clamped matrix. Every column whose \<open>\<bar>px\<bar>\<close> and
  \<open>\<bar>py\<bar>\<close> were both below \<open>0.001\<close> has \<open>0.01\<close> in both places, every other column is
  unchanged. The rest of the call reads the clamped matrix: the sigma points, and with
  them the whole update (the state deviations of the cross covariance included), are the
  same as if the call had started from the clamped matrix.
\<close>

theorem radar_clamp_is_stored:
  assumes "is_mat 5 (sigma_count s) (Xsig_pred s)" and "UpdateRadar E m s = Inr s'"
  shows "Xsig_pred s' = fst (radar_sigma_points s)
       \<and> (\<forall>i < sigma_count s.
            col (Xsig_pred s') i =
              (if \<bar>coeff (Xsig_pred s) 0 i\<bar> < 0.001 \<and> \<bar>coeff (Xsig_pred s) 1 i\<bar> < 0.001
               then (col (Xsig_pred s) i)[0 := 0.01, 1 := 0.01]
               else col (Xsig_pred s) i))
       \<and> radar_sigma_points (s\<lparr> Xsig_pred := Xsig_pred s' \<rparr>) = radar_sigma_points s
       \<and> UpdateRadar E m (s\<lparr> Xsig_pred := Xsig_pred s' \<rparr>) = UpdateRadar E m s"
proof -
  have X: "Xsig_pred s' = fst (radar_sigma_points s)"
    using assms(2) by (auto simp: UpdateRadar_def Let_def split: if_splits)
  have len: "length (Xsig_pred s) = 5" using assms(1) by (simp add: is_mat_def)
  have cols: "col (Xsig_pred s') i =
      (if \<bar>coeff (Xsig_pred s) 0 i\<bar> < 0.001 \<and> \<bar>coeff (Xsig_pred s) 1 i\<bar> < 0.001
       then (col (Xsig_pred s) i)[0 := 0.01, 1 := 0.01]
       else col (Xsig_pred s) i)" if "i < sigma_count s" for i
    unfolding X radar_sigma_points_col [OF assms(1) that]
    using len by (simp add: clamp_column_def col_nth)
  show ?thesis
    using cols radar_sigma_points_clamped [OF assms(1)] UpdateRadar_clamped [OF assms(1)]
    by (simp add: X)
qed

lemma radar_sample_facts:
  "sigma_count radar_sample = 15"
  "is_mat 5 15 (Xsig_pred radar_sample)"
  "col (Xsig_pred radar_sample) 0 = [1, 0, 0, 0, 0]"
  "col (Xsig_pred radar_sample) 1 = [0, 0, 0, 0, 0]"
proof -
  show "sigma_count radar_sample = 15"
    by (simp add: radar_sample_def UKF_ctor_def sigma_count_def)
  show "is_mat 5 15 (Xsig_pred radar_sample)"
    by (simp add: radar_sample_def is_mat_def list_all_iff)
  show "col (Xsig_pred radar_sample) 0 = [1, 0, 0, 0, 0]"
    by (simp add: radar_sample_def col_def numeral_eq_Suc)
  show "col (Xsig_pred radar_sample) 1 = [0, 0, 0, 0, 0]"
    by (simp add: radar_sample_def col_def numeral_eq_Suc)
qed

theorem radar_clamp_is_stored_witness:
  "is_mat 5 (sigma_count radar_sample) (Xsig_pred radar_sample)
   \<and> (\<exists>s'. UpdateRadar eigen_stub
          \<lparr> timestamp = 1, sensor_type = RADAR, raw_measurements = [1, 0, 0] \<rparr> radar_sample
        = Inr s'
      \<and> col (Xsig_pred radar_sample) 0 = [1, 0, 0, 0, 0]
      \<and> col (Xsig_pred s') 0 = [1, 0, 0, 0, 0]
      \<and> col (Xsig_pred radar_sample) 1 = [0, 0, 0, 0, 0]
      \<and> col (Xsig_pred s') 1 = [0.01, 0.01, 0, 0, 0]
      \<and> UpdateRadar eigen_stub
          \<lparr> timestamp = 1, sensor_type = RADAR, raw_measurements = [1, 0, 0] \<rparr>
          (radar_sample\<lparr> Xsig_pred := Xsig_pred s' \<rparr>) = Inr s')"
proof -
  let ?m = "\<lparr> timestamp = 1, sensor_type = RADAR, raw_measurements = [1, 0, 0] \<rparr>"
  have m: "is_mat 5 (sigma_count radar_sample) (Xsig_pred radar_sample)"
    by (simp add: radar_sample_facts)
  obtain s' where s': "UpdateRadar eigen_stub ?m radar_sample = Inr s'"
    using UpdateRadar_returns(1) [of ?m] by auto
  have c: "coeff (Xsig_pred radar_sample) 0 0 = 1"
    "coeff (Xsig_pred radar_sample) 0 (Suc 0) = 0"
    "coeff (Xsig_pred radar_sample) (Suc 0) (Suc 0) = 0"
    "col (Xsig_pred radar_sample) (Suc 0) = [0, 0, 0, 0, 0]"
    by (simp_all add: radar_sample_def coeff_def col_def numeral_eq_Suc)
  note t = radar_clamp_is_stored [OF m s']
  note cols = conjunct1 [OF conjunct2 [OF t], unfolded radar_sample_facts(1), rule_format]
  have c0: "col (Xsig_pred s') 0 = [1, 0, 0, 0, 0]"
    using cols [of 0] by (simp add: radar_sample_facts c)
  have c1: "col (Xsig_pred s') 1 = [0.01, 0.01, 0, 0, 0]"
    using cols [of 1] by (simp add: radar_sample_facts c)
  have u: "UpdateRadar eigen_stub ?m (radar_sample\<lparr> Xsig_pred := Xsig_pred s' \<rparr>) = Inr s'"
    using conjunct2 [OF conjunct2 [OF conjunct2 [OF t]]] s' by (rule trans)
  show ?thesis using m s' c0 c1 u radar_sample_facts(3,4) by blast
qed

section \<open>The updates and the inverse of the innovation covariance\<close>

lemma vadd_eq_self:
  "length v = length u \<Longrightarrow> vadd u v = u \<longleftrightarrow> v = zero_vec (length u)"
proof (induction v u rule: list_induct2)
  case Nil
  show ?case by (simp add: vadd_def zero_vec_def)
next
  case (Cons a v b u)
  then show ?case by (simp add: vadd_def zero_vec_def)
qed

lemma length_mmul [simp]: "length (mmul A B) = length A"
  by (simp add: mmul_def)

lemma length_madd [simp]: "length (madd A B) = min (length A) (length B)"
  by (simp add: madd_def)

lemma length_outer [simp]: "length (outer u v) = length u"
  by (simp add: outer_def)

lemma length_T_radar:
  assumes "is_mat 5 (sigma_count s) (Xsig_pred s)" and "n_x s = 5" and "length (x_state s) = 5"
  shows "length (snd (ST_radar s)) = 5"
proof -
  have l: "length (fst (radar_sigma_points s)) = 5"
    using radar_sigma_points_coeff(1) [OF assms(1)] by (simp add: is_mat_def)
  show ?thesis
    unfolding ST_radar_def
    by (rule foldl_invariant [where Q = "\<lambda>ST. length (snd ST) = 5"])
      (simp_all add: Let_def l assms(2,3) fill_mat_def zero_mat_def)
qed

text \<open>
  Claim C3 is about an innovation covariance \<open>S\<close> that is not invertible: the update is to
  be skipped, and no NaN or infinity written into the state. Neither side of it is a
  statement of this embedding. Eigen's \<^verbatim>\<open>inverse()\<close> requires an invertible matrix; what
  it returns for a singular one comes out of floating-point divisions by zero, and the
  values it leaves in the state are NaN and infinities, which the real numbers of the
  embedding do not have. What the embedding shows is that neither update tests \<open>S\<close>: for
  a measurement vector of the right size both always return, with the state vector
  \<open>x + K y\<close>, the covariance \<open>(I - K H) P\<close> (lidar) or \<open>P - K S K\<^sup>T\<close> (radar) and the
  NIS computed from the matrix the library returns as the inverse of \<open>S\<close>; and on a
  filter with the allocated sizes the state vector is retained exactly when \<open>K y\<close> is
  the zero vector.
\<close>

lemma updates_use_the_inverse_unconditionally:
  "(length (raw_measurements m) = 2 \<longrightarrow>
      (let y = vsub (raw_measurements m) (mat_vec H_lidar (x_state s));
           K = mmul (mmul (P_cov s) (transpose H_lidar)) (inverse_mat E (S_lidar s))
       in UpdateLidar E m s =
            Inr (s\<lparr> x_state := vadd (x_state s) (mat_vec K y),
                    P_cov := mmul (msub (identity (nat (n_x s))) (mmul K H_lidar)) (P_cov s),
                    NIS_laser := dot (vec_mat y (inverse_mat E (S_lidar s))) y \<rparr>)
          \<and> (length (P_cov s) = length (x_state s) \<longrightarrow>
               (map_sum id x_state (UpdateLidar E m s) = Inr (x_state s)
                  \<longleftrightarrow> mat_vec K y = zero_vec (length (x_state s))))))
   \<and> (length (raw_measurements m) = 3 \<longrightarrow>
      (let z_diff = vsub (raw_measurements m) (z_pred_radar s);
           z_diff = z_diff[1 := normalize_angle (z_diff ! 1)];
           K = mmul (snd (ST_radar s)) (inverse_mat E (S_radar s))
       in UpdateRadar E m s =
            Inr (s\<lparr> Xsig_pred := fst (radar_sigma_points s),
                    x_state := vadd (x_state s) (mat_vec K z_diff),
                    P_cov := msub (P_cov s) (mmul (mmul K (S_radar s)) (transpose K)),
                    NIS_radar := dot (vec_mat z_diff (inverse_mat E (S_radar s))) z_diff \<rparr>)
          \<and> (is_mat 5 (sigma_count s) (Xsig_pred s) \<and> n_x s = 5 \<and> length (x_state s) = 5 \<longrightarrow>
               (map_sum id x_state (UpdateRadar E m s) = Inr (x_state s)
                  \<longleftrightarrow> mat_vec K z_diff = zero_vec 5))))"
proof -
  have lidar: "UpdateLidar E m s =
      Inr (s\<lparr> x_state := vadd (x_state s)
                  (mat_vec (mmul (mmul (P_cov s) (transpose H_lidar)) (inverse_mat E (S_lidar s)))
                     (vsub (raw_measurements m) (mat_vec H_lidar (x_state s)))),
              P_cov := mmul (msub (identity (nat (n_x s)))
                  (mmul (mmul (mmul (P_cov s) (transpose H_lidar)) (inverse_mat E (S_lidar s)))
                     H_lidar)) (P_cov s),
              NIS_laser := dot (vec_mat (vsub (raw_measurements m) (mat_vec H_lidar (x_state s)))
                  (inverse_mat E (S_lidar s)))
                  (vsub (raw_measurements m) (mat_vec H_lidar (x_state s))) \<rparr>)"
    if "length (raw_measurements m) = 2"
    using that by (simp add: UpdateLidar_def Let_def H_lidar_def)
  have radar: "UpdateRadar E m s =
      Inr (s\<lparr> Xsig_pred := fst (radar_sigma_points s),
              x_state := vadd (x_state s)
                  (mat_vec (mmul (snd (ST_radar s)) (inverse_mat E (S_radar s)))
                     ((vsub (raw_measurements m) (z_pred_radar s))
                        [1 := normalize_angle (vsub (raw_measurements m) (z_pred_radar s) ! 1)])),
              P_cov := msub (P_cov s)
                  (mmul (mmul (mmul (snd (ST_radar s)) (inverse_mat E (S_radar s))) (S_radar s))
                     (transpose (mmul (snd (ST_radar s)) (inverse_mat E (S_radar s))))),
              NIS_radar := dot (vec_mat ((vsub (raw_measurements m) (z_pred_radar s))
                        [1 := normalize_angle (vsub (raw_measurements m) (z_pred_radar s) ! 1)])
                     (inverse_mat E (S_radar s)))
                  ((vsub (raw_measurements m) (z_pred_radar s))
                        [1 := normalize_angle (vsub (raw_measurements m) (z_pred_radar s) ! 1)]) \<rparr>)"
    if "length (raw_measurements m) = 3"
    using that by (simp add: UpdateRadar_def Let_def)
  show ?thesis
    by (auto simp: Let_def lidar radar vadd_eq_self length_T_radar)
qed

section \<open>The allocated sizes are kept\<close>

lemma allocated_ctor: "allocated UKF_ctor"
  using ctor_is_mat
  by (simp add: allocated_def sigma_count_def) (simp add: UKF_ctor_def zero_vec_def)

lemma sigma_count_Prediction [simp]: "sigma_count (Prediction E dt s) = sigma_count s"
  by (simp add: sigma_count_def Prediction_frame)

lemma allocated_Prediction:
  assumes "allocated s"
  shows "allocated (Prediction E dt s)"
proof -
  let ?Xp = "Xsig_pred (Prediction E dt s)"
  have m: "is_mat 5 (sigma_count s) ?Xp"
    unfolding Xsig_pred_Prediction
    using sigma_loop [OF _ order_refl] assms by (simp add: allocated_def)
  then have l: "length ?Xp = 5" by (simp add: is_mat_def)
  have Xp: "?Xp = foldl (\<lambda>X i. write_sigma_point X i
      (predict_sigma_point dt (col (Xsig_aug E s) i))) (Xsig_pred s) [0..<sigma_count s]"
    by (rule Xsig_pred_Prediction)
  have x: "length (x_state (Prediction E dt s)) = 5"
    unfolding Prediction_def Let_def
    apply (simp del: foldl_Cons)
    apply (rule foldl_invariant [where Q = "\<lambda>v. length v = 5"])
    using assms l [unfolded Xp] by (simp_all add: allocated_def fill_vec_def)
  have P: "length (P_cov (Prediction E dt s)) = 5"
    unfolding Prediction_def Let_def
    apply (simp del: foldl_Cons)
    apply (rule foldl_invariant [where Q = "\<lambda>M. length M = 5"])
    using assms l [unfolded Xp] x [unfolded Prediction_def Let_def]
    by (simp_all add: allocated_def fill_mat_def Let_def)
  show ?thesis
    using assms m x P
    by (simp add: allocated_def Prediction_frame weights_Prediction length_predicted_weights)
qed

lemma length_msub [simp]: "length (msub A B) = min (length A) (length B)"
  by (simp add: msub_def)

lemma length_identity [simp]: "length (identity n) = n"
  by (simp add: identity_def)

lemma allocated_UpdateLidar:
  assumes "allocated s" and "UpdateLidar E m s = Inr s'"
  shows "allocated s'"
  using assms
  by (auto simp: allocated_def UpdateLidar_def Let_def sigma_count_def split: if_splits)

lemma allocated_UpdateRadar:
  assumes "allocated s" and "UpdateRadar E m s = Inr s'"
  shows "allocated s'"
proof -
  have m: "is_mat 5 (sigma_count s) (Xsig_pred s)" "n_x s = 5" "length (x_state s) = 5"
    using assms(1) by (simp_all add: allocated_def)
  note T = length_T_radar [OF m]
  note X = radar_sigma_points_coeff(1) [OF m(1)]
  show ?thesis
    using assms T X
    by (auto simp: allocated_def UpdateRadar_def Let_def sigma_count_def split: if_splits)
qed

lemma allocated_ProcessMeasurement:
  assumes "allocated s" and "snd (ProcessMeasurement E m s) = Inr s'"
  shows "allocated s'"
proof (cases "is_initialized s")
  case False
  with assms show ?thesis
    by (auto simp: ProcessMeasurement_def Let_def allocated_def sigma_count_def
        split: SensorType.splits if_splits)
next
  case True
  have flags: "allocated (t\<lparr> use_laser := a, use_radar := b \<rparr>) = allocated t" for t a b
    by (simp add: allocated_def sigma_count_def)
  have flags': "allocated (t\<lparr> use_radar := a, use_laser := b \<rparr>) = allocated t" for t a b
    by (simp add: allocated_def sigma_count_def)
  have clock: "allocated (s\<lparr> time_us := c \<rparr>)" for c
    using assms(1) by (auto simp: allocated_def sigma_count_def)
  note p = allocated_Prediction [OF clock]
  show ?thesis
    using assms(2) True
    by (auto simp: ProcessMeasurement_initialized p Let_def flags flags'
        split: if_splits sum.splits
        dest: allocated_UpdateLidar [OF p] allocated_UpdateRadar [OF p])
qed

text \<open>
  Every state of a run has the allocated sizes, whatever the library returns: the size
  hypotheses of the theorems on \<^verbatim>\<open>Prediction\<close> and \<^verbatim>\<open>UpdateRadar\<close> hold in every
  reachable state.
\<close>

lemma reachable_allocated: "reachable E s \<Longrightarrow> allocated s"
  by (induction rule: reachable.induct)
    (auto intro: allocated_ctor allocated_ProcessMeasurement)


end
